theory Spec2Isabelle
  imports Complex_Main "HOL-Library.AList" "HOL-Library.List_Lexorder" "HOL-Library.Char_ord"
begin

section \<open>Values of the remote API\<close>

text \<open>
  The module \<^verbatim>\<open>dalmatian/wmanager.py\<close> talks to a remote workspace through
  \<^verbatim>\<open>firecloud.api\<close>. Every Python exception that the modelled code can raise is a
  constructor of \<open>error\<close>; a function that can raise returns \<open>error + 'a\<close>.
\<close>

datatype error =
  AssertionError | KeyError | IndexError | AttributeError | UnboundLocalError
  | ValueError | TypeError

text \<open>
  A response of the remote: its status code and its decoded body. \<open>body = None\<close> is a
  body that is not JSON, on which \<^verbatim>\<open>r.json()\<close> raises (a \<^verbatim>\<open>ValueError\<close>).
\<close>

record 'a response =
  status_code :: nat
  body :: "'a option"

definition json :: "'a response \<Rightarrow> error + 'a" where
  "json r = (case body r of None \<Rightarrow> Inl ValueError | Some v \<Rightarrow> Inr v)"

text \<open>
  Instants are rational numbers of seconds: a date field holds the number that
  \<^verbatim>\<open>datetime.timestamp(iso8601.parse_date(..))\<close> (for submissions) or \<^verbatim>\<open>convert_time\<close>
  (for calls and events) yields for its string, and Python's float arithmetic on them is
  read as exact arithmetic.
\<close>

record entity_ref =
  entityType :: string
  entityName :: string

record submission =
  submissionId :: string
  submissionDate :: rat
  methodConfigurationName :: string
  submissionEntity :: entity_ref

record workflow =
  workflowEntity :: entity_ref
  status :: string
  workflowId :: "string option"

record submission_detail =
  workflows :: "workflow list"

text \<open>
  The part of the remote that the status aggregation reads: what it answers to
  \<^verbatim>\<open>firecloud.api.list_submissions\<close> and, for each submission id, to
  \<^verbatim>\<open>firecloud.api.get_submission\<close>.
\<close>

record submission_api =
  api_list_submissions :: "submission list response"
  api_get_submission :: "string \<Rightarrow> submission_detail response"

section \<open>Status of the latest submission of each entity\<close>

text \<open>\<^verbatim>\<open>needle in haystack\<close> on Python strings.\<close>

fun contains :: "string \<Rightarrow> string \<Rightarrow> bool" where
  "contains needle [] = (needle = [])"
| "contains needle (c # cs) =
     (take (length needle) (c # cs) = needle \<or> contains needle cs)"

definition get_submission :: "'a submission_api_scheme \<Rightarrow> string \<Rightarrow> error + submission_detail" where
  "get_submission api submission_id =
     (let r = api_get_submission api submission_id in
      if status_code r \<noteq> 200 then Inl AssertionError else json r)"

definition list_submissions :: "'a submission_api_scheme \<Rightarrow> string option \<Rightarrow> error + submission list" where
  "list_submissions api config =
     (let submissions = api_list_submissions api in
      if status_code submissions \<noteq> 200 then Inl AssertionError
      else case json submissions of
        Inl e \<Rightarrow> Inl e
      | Inr subs \<Rightarrow>
          (case config of
             None \<Rightarrow> Inr subs
           | Some c \<Rightarrow> Inr (filter (\<lambda>s. contains c (methodConfigurationName s)) subs)))"

text \<open>One value of \<^verbatim>\<open>entity_dict\<close>, later one row of the status table.\<close>

record entity_status =
  es_status :: string
  es_timestamp :: rat
  es_workflow_id :: string
  es_submission_id :: string
  es_configuration :: string

type_synonym entity_dict = "(string \<times> entity_status) list"

text \<open>
  The body of the inner loop over \<^verbatim>\<open>r['workflows']\<close>. The dictionary is an association
  list with distinct keys in insertion order; \<open>AList.update\<close> replaces the value of a key
  in place and appends a new key, as a Python \<^verbatim>\<open>dict\<close> does.
\<close>

definition new_status :: "submission \<Rightarrow> rat \<Rightarrow> workflow \<Rightarrow> entity_status" where
  "new_status s ts w =
     \<lparr>es_status = status w, es_timestamp = ts,
      es_workflow_id = (case workflowId w of Some i \<Rightarrow> i | None \<Rightarrow> ''NA''),
      es_submission_id = submissionId s,
      es_configuration = methodConfigurationName s\<rparr>"

definition record_workflow :: "submission \<Rightarrow> rat \<Rightarrow> entity_dict \<Rightarrow> workflow \<Rightarrow> entity_dict" where
  "record_workflow s ts entity_dict w =
     (let entity_id = entityName (workflowEntity w) in
      if (case map_of entity_dict entity_id of
            None \<Rightarrow> True
          | Some r \<Rightarrow> es_timestamp r < ts)
      then AList.update entity_id (new_status s ts w) entity_dict
      else entity_dict)"

text \<open>The outer loop over the submissions: one of another type is skipped.\<close>

fun scan_submissions ::
  "'a submission_api_scheme \<Rightarrow> string \<Rightarrow> submission list \<Rightarrow> entity_dict \<Rightarrow> error + entity_dict" where
  "scan_submissions api etype [] entity_dict = Inr entity_dict"
| "scan_submissions api etype (s # submissions) entity_dict =
     (if entityType (submissionEntity s) \<noteq> etype
      then scan_submissions api etype submissions entity_dict
      else case get_submission api (submissionId s) of
        Inl e \<Rightarrow> Inl e
      | Inr r \<Rightarrow>
          scan_submissions api etype submissions
            (foldl (record_workflow s (submissionDate s)) entity_dict (workflows r)))"

text \<open>
  The table is \<^verbatim>\<open>pd.DataFrame(entity_dict).T\<close>, one row for each key; selecting the five
  columns of a table made from an empty dictionary raises \<^verbatim>\<open>KeyError\<close>.
\<close>

definition get_entity_status ::
  "'a submission_api_scheme \<Rightarrow> string \<Rightarrow> string option \<Rightarrow> error + entity_dict" where
  "get_entity_status api etype config =
     (case list_submissions api config of
        Inl e \<Rightarrow> Inl e
      | Inr submissions \<Rightarrow>
          (case scan_submissions api etype submissions [] of
             Inl e \<Rightarrow> Inl e
           | Inr entity_dict \<Rightarrow>
               if entity_dict = [] then Inl KeyError else Inr entity_dict))"

definition get_sample_status :: "'a submission_api_scheme \<Rightarrow> string option \<Rightarrow> error + entity_dict" where
  "get_sample_status api configuration = get_entity_status api ''sample'' configuration"

definition get_sample_set_status :: "'a submission_api_scheme \<Rightarrow> string option \<Rightarrow> error + entity_dict" where
  "get_sample_set_status api configuration = get_entity_status api ''sample_set'' configuration"

text \<open>
  The workflows that the scan visits, each with its submission, in the order of the scan,
  when every fetch of a submission of the type succeeds.
\<close>

definition detail_of :: "'a submission_api_scheme \<Rightarrow> submission \<Rightarrow> workflow list" where
  "detail_of api s =
     (case get_submission api (submissionId s) of Inl e \<Rightarrow> [] | Inr r \<Rightarrow> workflows r)"

definition scanned :: "'a submission_api_scheme \<Rightarrow> string \<Rightarrow> submission list \<Rightarrow> (submission \<times> workflow) list" where
  "scanned api etype submissions =
     concat (map (\<lambda>s. map (Pair s) (detail_of api s))
       (filter (\<lambda>s. entityType (submissionEntity s) = etype) submissions))"

definition entity_of :: "submission \<times> workflow \<Rightarrow> string" where
  "entity_of p = entityName (workflowEntity (snd p))"

definition stamp_of :: "submission \<times> workflow \<Rightarrow> rat" where
  "stamp_of p = submissionDate (fst p)"

definition status_of :: "submission \<times> workflow \<Rightarrow> entity_status" where
  "status_of p = new_status (fst p) (submissionDate (fst p)) (snd p)"

text \<open>The visits of the scan that name the entity \<open>e\<close>.\<close>

definition visits :: "'a submission_api_scheme \<Rightarrow> string \<Rightarrow> submission list \<Rightarrow> string \<Rightarrow> (submission \<times> workflow) list" where
  "visits api etype submissions e = filter (\<lambda>p. entity_of p = e) (scanned api etype submissions)"

text \<open>The scan as a fold over its visits, and what it keeps for one entity.\<close>

definition visit :: "entity_dict \<Rightarrow> submission \<times> workflow \<Rightarrow> entity_dict" where
  "visit d p = record_workflow (fst p) (stamp_of p) d (snd p)"

definition keep :: "entity_status option \<Rightarrow> submission \<times> workflow \<Rightarrow> entity_status option" where
  "keep acc p =
     (case acc of
        None \<Rightarrow> Some (status_of p)
      | Some r \<Rightarrow> if es_timestamp r < stamp_of p then Some (status_of p) else Some r)"

section \<open>Workflow metadata\<close>

record event =
  description :: string
  startTime :: rat
  endTime :: rat

text \<open>What has a \<^verbatim>\<open>'start'\<close> and an \<^verbatim>\<open>'end'\<close>: a call attempt and a whole workflow.\<close>

record timed =
  start :: rat
  end_time :: rat

text \<open>
  One element of \<^verbatim>\<open>metadata['calls'][task]\<close>. A key that the code tests with \<^verbatim>\<open>in\<close>
  before it reads it is an option; \<open>callCaching_hit\<close> is \<^verbatim>\<open>j['callCaching']['hit']\<close> and
  \<open>jes_machineType\<close> is \<^verbatim>\<open>j['jes']['machineType']\<close>.
\<close>

record attempt = timed +
  shardIndex :: "int option"
  executionEvents :: "event list"
  callCaching_hit :: "bool option"
  preemptible :: bool
  jes_machineType :: string
  jobId :: string
  outputs :: "(string \<times> string) list option"

record metadata = timed +
  workflowName :: string
  calls :: "(string \<times> attempt list) list"
  workflow_outputs :: "(string \<times> string) list option"

text \<open>
  A Python object on which the code calls \<^verbatim>\<open>.json()\<close>: a response has the method, a
  decoded dictionary has not, and the call raises \<^verbatim>\<open>AttributeError\<close>.
\<close>

datatype pyobject = Response "metadata response" | Dict metadata

definition dot_json :: "pyobject \<Rightarrow> error + metadata" where
  "dot_json obj = (case obj of Response r \<Rightarrow> json r | Dict d \<Rightarrow> Inl AttributeError)"

definition get_workflow_metadata ::
  "(string \<Rightarrow> string \<Rightarrow> metadata response) \<Rightarrow> string \<Rightarrow> string \<Rightarrow> error + metadata" where
  "get_workflow_metadata api submission_id workflow_id =
     (let metadata = api submission_id workflow_id in
      if status_code metadata \<noteq> 200 then Inl AssertionError
      else dot_json (Response metadata))"

section \<open>Execution statistics\<close>

text \<open>
  Modelled from the spec: \<^verbatim>\<open>workflow_time\<close> is called by \<^verbatim>\<open>get_stats\<close> and defined
  nowhere in \<^verbatim>\<open>wmanager.py\<close>. The spec calls it the wall-clock duration of an attempt
  (of the whole workflow, for the workflow-level \<^verbatim>\<open>time_h\<close>), which the code divides by
  3600 to get hours.
\<close>

definition workflow_time :: "'a timed_scheme \<Rightarrow> rat" where
  "workflow_time j = end_time j - start j"

text \<open>
  What \<^verbatim>\<open>get_stats\<close> calls and \<^verbatim>\<open>wmanager.py\<close> does not define: the pricing table
  \<^verbatim>\<open>get_vm_cost\<close>, the rendering of an instant as hour and minute in the time zone of the
  workspace, and Python's \<^verbatim>\<open>int\<close> on a string (\<open>None\<close> where it raises).
\<close>

record environment =
  get_vm_cost :: "string \<Rightarrow> bool \<Rightarrow> rat"
  local_hm :: "rat \<Rightarrow> string"
  py_int :: "string \<Rightarrow> int option"

text \<open>\<^verbatim>\<open>s.rsplit(c)[-1]\<close> and \<^verbatim>\<open>s.split(c)[-1]\<close> for a one-character separator.\<close>

definition rsplit_last :: "char \<Rightarrow> string \<Rightarrow> string" where
  "rsplit_last c s = rev (takeWhile (\<lambda>x. x \<noteq> c) (rev s))"

text \<open>\<^verbatim>\<open>sep.join(xs)\<close>.\<close>

fun join :: "string \<Rightarrow> string list \<Rightarrow> string" where
  "join sep [] = []"
| "join sep [x] = x"
| "join sep (x # y # ys) = x @ sep @ join sep (y # ys)"

text \<open>One row of a table of \<^verbatim>\<open>task_dfs\<close>; a cell that was never assigned is \<open>None\<close>.\<close>

record task_stats =
  time_h :: "rat option"
  total_time_h :: "rat option"
  max_preempt_time_h :: "rat option"
  machine_type :: "string option"
  attempts :: "nat option"
  start_time :: "string option"
  est_cost :: "rat option"
  job_ids :: "string option"

text \<open>
  The loop of the scattered branch: \<^verbatim>\<open>successes\<close> is a dictionary from shard index to
  attempt, \<^verbatim>\<open>preemptions\<close> a list. An attempt without \<^verbatim>\<open>'shardIndex'\<close> raises.
\<close>

fun resolve_shards ::
  "attempt list \<Rightarrow> (int \<times> attempt) list \<Rightarrow> attempt list \<Rightarrow>
   error + ((int \<times> attempt) list \<times> attempt list)" where
  "resolve_shards [] successes preemptions = Inr (successes, preemptions)"
| "resolve_shards (j # js) successes preemptions =
     (case shardIndex j of
        None \<Rightarrow> Inl KeyError
      | Some k \<Rightarrow>
          resolve_shards js (AList.update k j successes)
            (if k \<in> fst ` set successes then preemptions @ [j] else preemptions))"

definition resolve :: "attempt list \<Rightarrow> error + ((int \<times> attempt) list \<times> attempt list)" where
  "resolve cs =
     (case cs of
        [] \<Rightarrow> Inl IndexError
      | c # _ \<Rightarrow>
          if shardIndex c \<noteq> None then resolve_shards cs [] []
          else Inr ([(0, last cs)], butlast cs))"

definition quota_time :: "(int \<times> attempt) list \<Rightarrow> rat list" where
  "quota_time successes =
     map (\<lambda>q. (endTime q - startTime q) / 3600)
       (concat (map (\<lambda>m. filter (\<lambda>e. description e = ''waiting for quota'') (executionEvents m))
          (map snd successes)))"

definition cache_hit :: "attempt list \<Rightarrow> bool" where
  "cache_hit cs = list_ex (\<lambda>j. callCaching_hit j = Some True) cs"

text \<open>\<^verbatim>\<open>np.max\<close> of a list that is not empty.\<close>

definition np_max :: "rat list \<Rightarrow> rat" where
  "np_max xs = fold max (tl xs) (hd xs)"

text \<open>
  The body of the loop over the entities of one task, for the attempts \<open>cs\<close> that the
  metadata of the entity holds for the task: lines 717 to 756.
\<close>

definition task_row :: "environment \<Rightarrow> attempt list \<Rightarrow> error + task_stats" where
  "task_row env cs =
     (case resolve cs of
        Inl e \<Rightarrow> Inl e
      | Inr (successes, preemptions) \<Rightarrow>
          (let quota = quota_time successes;
               hours = map (\<lambda>t_attempt. workflow_time t_attempt / 3600) cs;
               row = \<lparr>time_h = Some (sum_list (map (\<lambda>j. workflow_time j / 3600) (map snd successes))
                                    - sum_list quota),
                      total_time_h = Some (sum_list hours - sum_list quota),
                      max_preempt_time_h = None, machine_type = None, attempts = None,
                      start_time = None, est_cost = None, job_ids = None\<rparr>
           in if cache_hit cs then Inr row
              else
                (let was_preemptible = map preemptible cs;
                     machine_types = map (\<lambda>j. rsplit_last CHR ''/'' (jes_machineType j)) cs
                 in if preemptions \<noteq> [] \<and> \<not> hd was_preemptible then Inl AssertionError
                    else Inr (row
                      \<lparr>max_preempt_time_h :=
                         (if preemptions \<noteq> []
                          then Some (np_max (map workflow_time preemptions) / 3600) else None),
                       machine_type := Some (last machine_types),
                       attempts := Some (length cs),
                       start_time := Some (local_hm env (start (hd cs))),
                       est_cost := Some (sum_list (map (\<lambda>(h, m, p). get_vm_cost env m p * h)
                                     (zip hours (zip machine_types was_preemptible)))),
                       job_ids := Some (join '','' (map jobId (map snd successes)))\<rparr>))))"

type_synonym task_df = "(string \<times> task_stats) list"

text \<open>The loop over the entities of a group, for one task \<open>t\<close>.\<close>

fun task_rows ::
  "environment \<Rightarrow> (string \<times> metadata) list \<Rightarrow> string \<Rightarrow> string list \<Rightarrow> error + task_df" where
  "task_rows env metadata_dict t [] = Inr []"
| "task_rows env metadata_dict t (i # index) =
     (case map_of metadata_dict i of
        None \<Rightarrow> Inl KeyError
      | Some md \<Rightarrow>
          (case map_of (calls md) t of
             None \<Rightarrow> Inl KeyError
           | Some cs \<Rightarrow>
               (case task_row env cs of
                  Inl e \<Rightarrow> Inl e
                | Inr row \<Rightarrow>
                    (case task_rows env metadata_dict t index of
                       Inl e \<Rightarrow> Inl e
                     | Inr rows \<Rightarrow> Inr ((i, row) # rows)))))"

text \<open>The loop over the tasks: \<^verbatim>\<open>task_dfs\<close> is keyed by the last component of the name.\<close>

fun task_tables ::
  "environment \<Rightarrow> (string \<times> metadata) list \<Rightarrow> string list \<Rightarrow> string list \<Rightarrow>
   (string \<times> task_df) list \<Rightarrow> error + (string \<times> task_df) list" where
  "task_tables env metadata_dict index [] task_dfs = Inr task_dfs"
| "task_tables env metadata_dict index (t # tasks) task_dfs =
     (case task_rows env metadata_dict t index of
        Inl e \<Rightarrow> Inl e
      | Inr df \<Rightarrow>
          task_tables env metadata_dict index tasks
            (AList.update (rsplit_last CHR ''.'' t) df task_dfs))"

text \<open>
  The cores of a machine type, as the \<^verbatim>\<open>lambda\<close> of line 761 computes them; a cell that
  is null counts one core.
\<close>

definition cores :: "environment \<Rightarrow> string option \<Rightarrow> error + int" where
  "cores env i =
     (case i of
        None \<Rightarrow> Inr 1
      | Some m \<Rightarrow>
          if \<not> contains ''-small'' m \<and> \<not> contains ''-micro'' m
          then (case py_int env (rsplit_last CHR ''-'' m) of
                  None \<Rightarrow> Inl ValueError
                | Some n \<Rightarrow> Inr n)
          else Inr 1)"

text \<open>
  What one row of a task table adds to the sums over the tasks of line 759 and of line
  761: \<^verbatim>\<open>sum(axis=1)\<close> skips a null cell, that is, adds 0 for it.
\<close>

definition cost_share :: "task_stats \<Rightarrow> rat" where
  "cost_share row = (case est_cost row of None \<Rightarrow> 0 | Some c \<Rightarrow> c)"

definition cpu_share :: "environment \<Rightarrow> task_stats \<Rightarrow> error + rat" where
  "cpu_share env row =
     (case cores env (machine_type row) of
        Inl e \<Rightarrow> Inl e
      | Inr n \<Rightarrow> Inr (case total_time_h row of None \<Rightarrow> 0 | Some h \<Rightarrow> h * of_int n))"

text \<open>The rows of the entity \<open>i\<close> in the tables of the tasks, one for each task.\<close>

fun entity_rows :: "(string \<times> task_df) list \<Rightarrow> string list \<Rightarrow> string \<Rightarrow> error + task_stats list" where
  "entity_rows task_dfs [] i = Inr []"
| "entity_rows task_dfs (t # tasks) i =
     (case map_of task_dfs (rsplit_last CHR ''.'' t) of
        None \<Rightarrow> Inl KeyError
      | Some df \<Rightarrow>
          (case map_of df i of
             None \<Rightarrow> Inl KeyError
           | Some row \<Rightarrow>
               (case entity_rows task_dfs tasks i of
                  Inl e \<Rightarrow> Inl e
                | Inr rows \<Rightarrow> Inr (row # rows))))"

fun sum_shares :: "(error + rat) list \<Rightarrow> error + rat" where
  "sum_shares [] = Inr 0"
| "sum_shares (x # xs) =
     (case x of
        Inl e \<Rightarrow> Inl e
      | Inr v \<Rightarrow> (case sum_shares xs of Inl e \<Rightarrow> Inl e | Inr s \<Rightarrow> Inr (v + s)))"

text \<open>One row of \<^verbatim>\<open>workflow_status_df\<close>: the status row and the four added columns.\<close>

record workflow_stats =
  w_status :: entity_status
  w_est_cost :: rat
  w_time_h :: rat
  w_cpu_hours :: rat
  w_start_time :: string

definition workflow_row ::
  "environment \<Rightarrow> (string \<times> metadata) list \<Rightarrow> (string \<times> task_df) list \<Rightarrow> string list \<Rightarrow>
   string \<times> entity_status \<Rightarrow> error + (string \<times> workflow_stats)" where
  "workflow_row env metadata_dict task_dfs tasks r =
     (case entity_rows task_dfs tasks (fst r) of
        Inl e \<Rightarrow> Inl e
      | Inr rows \<Rightarrow>
          (case map_of metadata_dict (fst r) of
             None \<Rightarrow> Inl KeyError
           | Some md \<Rightarrow>
               (case sum_shares (map (cpu_share env) rows) of
                  Inl e \<Rightarrow> Inl e
                | Inr cpu \<Rightarrow>
                    Inr (fst r,
                      \<lparr>w_status = snd r,
                       w_est_cost = sum_list (map cost_share rows),
                       w_time_h = workflow_time md / 3600,
                       w_cpu_hours = cpu,
                       w_start_time = local_hm env (start md)\<rparr>))))"

fun workflow_rows ::
  "environment \<Rightarrow> (string \<times> metadata) list \<Rightarrow> (string \<times> task_df) list \<Rightarrow> string list \<Rightarrow>
   (string \<times> entity_status) list \<Rightarrow> error + (string \<times> workflow_stats) list" where
  "workflow_rows env metadata_dict task_dfs tasks [] = Inr []"
| "workflow_rows env metadata_dict task_dfs tasks (r # rs) =
     (case workflow_row env metadata_dict task_dfs tasks r of
        Inl e \<Rightarrow> Inl e
      | Inr row \<Rightarrow>
          (case workflow_rows env metadata_dict task_dfs tasks rs of
             Inl e \<Rightarrow> Inl e
           | Inr rows \<Rightarrow> Inr (row # rows)))"

type_synonym stats = "(string \<times> workflow_stats) list \<times> (string \<times> task_df) list"

text \<open>
  The body of the loop over the workflow names, lines 699 to 762, for the rows
  \<open>workflow_status_df\<close> of one name. The tasks are those of the first entity of the group.
\<close>

definition group_stats ::
  "environment \<Rightarrow> (string \<times> metadata) list \<Rightarrow> (string \<times> entity_status) list \<Rightarrow> error + stats" where
  "group_stats env metadata_dict workflow_status_df =
     (case workflow_status_df of
        [] \<Rightarrow> Inl IndexError
      | r # _ \<Rightarrow>
          (case map_of metadata_dict (fst r) of
             None \<Rightarrow> Inl KeyError
           | Some md \<Rightarrow>
               (let tasks = sort (map fst (calls md)) in
                case task_tables env metadata_dict (map fst workflow_status_df) tasks [] of
                  Inl e \<Rightarrow> Inl e
                | Inr task_dfs \<Rightarrow>
                    (case workflow_rows env metadata_dict task_dfs tasks workflow_status_df of
                       Inl e \<Rightarrow> Inl e
                     | Inr rows \<Rightarrow> Inr (rows, task_dfs)))))"

text \<open>\<^verbatim>\<open>status_df[workflows==w]\<close>: the rows at the positions where the name is \<open>w\<close>.\<close>

definition group_rows ::
  "(string \<times> entity_status) list \<Rightarrow> string list \<Rightarrow> string \<Rightarrow> (string \<times> entity_status) list" where
  "group_rows status_df names w = map fst (filter (\<lambda>p. snd p = w) (zip status_df names))"

text \<open>
  The loop over \<^verbatim>\<open>np.unique(workflows)\<close>, with \<open>names\<close> for the array
  \<^verbatim>\<open>workflows\<close>: each turn overwrites the two tables, and the
  function returns those of the last turn.
\<close>

fun stats_groups ::
  "environment \<Rightarrow> (string \<times> metadata) list \<Rightarrow> (string \<times> entity_status) list \<Rightarrow> string list \<Rightarrow>
   string list \<Rightarrow> stats option \<Rightarrow> error + stats option" where
  "stats_groups env metadata_dict status_df names [] result = Inr result"
| "stats_groups env metadata_dict status_df names (w # ws) result =
     (case group_stats env metadata_dict (group_rows status_df names w) of
        Inl e \<Rightarrow> Inl e
      | Inr tables \<Rightarrow> stats_groups env metadata_dict status_df names ws (Some tables))"

text \<open>
  Lines 693 to 764 of \<^verbatim>\<open>get_stats\<close>: the tables, from the successful rows \<open>status_df\<close>
  and the metadata \<open>metadata_dict\<close> fetched for them. A mask of another length than the
  table raises; with no workflow at all the returned variables were never assigned.
\<close>

definition stats_tables ::
  "environment \<Rightarrow> (string \<times> entity_status) list \<Rightarrow> (string \<times> metadata) list \<Rightarrow> error + stats" where
  "stats_tables env status_df metadata_dict =
     (let names = map (\<lambda>k. workflowName (snd k)) metadata_dict in
      if names \<noteq> [] \<and> length names \<noteq> length status_df then Inl ValueError
      else case stats_groups env metadata_dict status_df names (sort (remdups names)) None of
        Inl e \<Rightarrow> Inl e
      | Inr None \<Rightarrow> Inl UnboundLocalError
      | Inr (Some tables) \<Rightarrow> Inr tables)"

text \<open>
  The retry loop of lines 682 to 689 for one entity. The remote may answer each request
  differently: \<open>api n\<close> is its answer to the request number \<open>n\<close>. A loop that never ends
  has the value \<open>None\<close>.
\<close>

partial_function (option) fetch_metadata ::
  "(nat \<Rightarrow> string \<Rightarrow> string \<Rightarrow> metadata response) \<Rightarrow> string \<Rightarrow> string \<Rightarrow> nat \<Rightarrow>
   (metadata \<times> nat) option" where
  "fetch_metadata api submission_id workflow_id n =
     (case (case get_workflow_metadata (api n) submission_id workflow_id of
              Inl e \<Rightarrow> Inl e
            | Inr metadata \<Rightarrow> dot_json (Dict metadata)) of
        Inl e \<Rightarrow> fetch_metadata api submission_id workflow_id (Suc n)
      | Inr d \<Rightarrow> Some (d, Suc n))"

text \<open>The loop over the rows of the table, lines 680 to 689.\<close>

fun fetch_all ::
  "(nat \<Rightarrow> string \<Rightarrow> string \<Rightarrow> metadata response) \<Rightarrow> (string \<times> entity_status) list \<Rightarrow> nat \<Rightarrow>
   (string \<times> metadata) list \<Rightarrow> (string \<times> metadata) list option" where
  "fetch_all api [] n metadata_dict = Some metadata_dict"
| "fetch_all api (r # rows) n metadata_dict =
     (case fetch_metadata api (es_submission_id (snd r)) (es_workflow_id (snd r)) n of
        None \<Rightarrow> None
      | Some (d, n') \<Rightarrow> fetch_all api rows n' (AList.update (fst r) d metadata_dict))"

definition get_stats ::
  "environment \<Rightarrow> (nat \<Rightarrow> string \<Rightarrow> string \<Rightarrow> metadata response) \<Rightarrow>
   (string \<times> entity_status) list \<Rightarrow> (error + stats) option" where
  "get_stats env api status_df =
     (let succeeded = filter (\<lambda>r. es_status (snd r) = ''Succeeded'') status_df in
      case fetch_all api succeeded 0 [] of
        None \<Rightarrow> None
      | Some metadata_dict \<Rightarrow> Some (stats_tables env succeeded metadata_dict))"

text \<open>
  The time, in hours, that an attempt spent in events described as waiting for quota,
  and what an accepted attempt adds to \<^verbatim>\<open>time_h\<close>.
\<close>

definition quota_wait :: "attempt \<Rightarrow> rat" where
  "quota_wait j =
     sum_list (map (\<lambda>q. (endTime q - startTime q) / 3600)
       (filter (\<lambda>e. description e = ''waiting for quota'') (executionEvents j)))"

definition contribution :: "attempt \<Rightarrow> rat" where
  "contribution j = workflow_time j / 3600 - quota_wait j"

text \<open>The attempts of a task that carry the shard index \<open>k\<close>, in the order of the metadata.\<close>

definition with_index :: "int \<Rightarrow> attempt list \<Rightarrow> attempt list" where
  "with_index k cs = filter (\<lambda>j. shardIndex j = Some k) cs"

text \<open>
  The row that lines 717 to 756 compute for the task \<open>t\<close> from the attempts that the
  metadata \<open>md\<close> of an entity holds for it.
\<close>

definition row_of :: "environment \<Rightarrow> metadata \<Rightarrow> string \<Rightarrow> task_stats \<Rightarrow> bool" where
  "row_of env md t row =
     (case map_of (calls md) t of None \<Rightarrow> False | Some cs \<Rightarrow> task_row env cs = Inr row)"

section \<open>Patching attributes\<close>

text \<open>
  The value of an attribute of an entity, and an entity as the remote lists it: its name
  and its attributes.
\<close>

datatype attr_value = Scalar string | EntityReference entity_ref | ReferenceList "entity_ref list"

type_synonym entity = "string \<times> (string \<times> attr_value) list"

record entities_page =
  filteredPageCount :: nat
  results :: "entity list"

text \<open>
  A write request of \<^verbatim>\<open>_batch_update_entities\<close>: for one entity, given by name and type,
  its operations.
\<close>

datatype operation = AddUpdateAttribute string string

type_synonym entity_update = "string \<times> string \<times> operation list"

text \<open>
  The remote workspace: its answers to the read requests, each a function of the
  arguments of the request, and the write requests it has received, in order.
\<close>

record remote = submission_api +
  api_get_workflow_metadata :: "string \<Rightarrow> string \<Rightarrow> metadata response"
  api_get_workspace_config :: "string \<Rightarrow> string \<Rightarrow> (string \<times> string) list response"
  api_get_entities_query :: "string \<Rightarrow> nat \<Rightarrow> entities_page response"
  api_get_entities :: "string \<Rightarrow> entity list response"
  batch_updates :: "entity_update list list"

text \<open>
  A table: its row labels, its column labels, and its cells; a null cell is \<open>None\<close>.
  Selecting a label that the table has not raises \<^verbatim>\<open>KeyError\<close>, as pandas does from
  version 1.0 on.
\<close>

record dataframe =
  df_index :: "string list"
  df_columns :: "string list"
  df_cell :: "string \<Rightarrow> string \<Rightarrow> attr_value option"

text \<open>
  \<^verbatim>\<open>s.split(sep)\<close> for a separator that is not empty: \<open>cur\<close> is the piece being read,
  reversed.
\<close>

function split_from :: "string \<Rightarrow> string \<Rightarrow> string \<Rightarrow> string list" where
  "split_from sep cur [] = [rev cur]"
| "split_from sep cur (c # cs) =
     (if sep \<noteq> [] \<and> take (length sep) (c # cs) = sep
      then rev cur # split_from sep [] (drop (length sep) (c # cs))
      else split_from sep (c # cur) cs)"
  by pat_completeness auto
termination
  by (relation "measure (\<lambda>(sep, cur, s). length s)") auto

definition split_last :: "string \<Rightarrow> string \<Rightarrow> string" where
  "split_last sep s = last (split_from sep [] s)"

text \<open>\<^verbatim>\<open>[d[k] for k in keys]\<close> on a dictionary.\<close>

fun lookup_all :: "(string \<times> 'v) list \<Rightarrow> string list \<Rightarrow> error + 'v list" where
  "lookup_all d [] = Inr []"
| "lookup_all d (k # ks) =
     (case map_of d k of
        None \<Rightarrow> Inl KeyError
      | Some v \<Rightarrow> (case lookup_all d ks of Inl e \<Rightarrow> Inl e | Inr vs \<Rightarrow> Inr (v # vs)))"

text \<open>A dictionary comprehension: a later pair replaces an earlier one with the same key.\<close>

definition dict_of :: "(string \<times> 'v) list \<Rightarrow> (string \<times> 'v) list" where
  "dict_of kvs = foldl (\<lambda>d kv. AList.update (fst kv) (snd kv) d) [] kvs"

subsection \<open>Writing attributes\<close>

text \<open>
  The argument \<^verbatim>\<open>attrs\<close> of \<^verbatim>\<open>update_entity_attributes\<close>: a \<^verbatim>\<open>pd.DataFrame\<close> (rows of
  entities with their attributes), a \<^verbatim>\<open>pd.Series\<close> (its name is the attribute, its items
  are the entities), or, as \<^verbatim>\<open>patch_attributes\<close> passes it, a plain \<^verbatim>\<open>dict\<close>.
\<close>

datatype attrs =
  DataFrame "(string \<times> (string \<times> string) list) list"
  | Series string "(string \<times> string) list"
  | PyDict "(string \<times> string) list"

text \<open>The request is posted; its answer only selects the message that is printed.\<close>

definition batch_update_entities :: "entity_update list \<Rightarrow> remote \<Rightarrow> remote" where
  "batch_update_entities json_body st = st\<lparr>batch_updates := batch_updates st @ [json_body]\<rparr>"

definition update_entity_attributes :: "string \<Rightarrow> attrs \<Rightarrow> remote \<Rightarrow> (error + unit) \<times> remote" where
  "update_entity_attributes etype a st =
     (case a of
        DataFrame rows \<Rightarrow>
          (Inr (),
           batch_update_entities
             (map (\<lambda>row. (fst row, etype, map (\<lambda>ij. AddUpdateAttribute (fst ij) (snd ij)) (snd row)))
                rows) st)
      | Series attr items \<Rightarrow>
          (Inr (),
           batch_update_entities
             (map (\<lambda>ij. (fst ij, etype, [AddUpdateAttribute attr (snd ij)])) items) st)
      | PyDict d \<Rightarrow> (Inl ValueError, st))"

definition update_sample_attributes :: "string \<Rightarrow> attrs \<Rightarrow> remote \<Rightarrow> (error + unit) \<times> remote" where
  "update_sample_attributes sample_id a st = update_entity_attributes ''sample'' a st"

definition update_sample_set_attributes :: "string \<Rightarrow> attrs \<Rightarrow> remote \<Rightarrow> (error + unit) \<times> remote" where
  "update_sample_set_attributes sample_set_id a st = update_entity_attributes ''sample_set'' a st"

subsection \<open>Reading the entities\<close>

definition get_entities_query :: "remote \<Rightarrow> string \<Rightarrow> nat \<Rightarrow> error + entities_page" where
  "get_entities_query st etype page =
     (let r = api_get_entities_query st etype page in
      if status_code r \<noteq> 200 then Inl AssertionError else json r)"

fun get_pages :: "remote \<Rightarrow> string \<Rightarrow> nat list \<Rightarrow> entity list \<Rightarrow> error + entity list" where
  "get_pages st etype [] all_entities = Inr all_entities"
| "get_pages st etype (page # pages) all_entities =
     (case get_entities_query st etype page of
        Inl e \<Rightarrow> Inl e
      | Inr r \<Rightarrow> get_pages st etype pages (all_entities @ results r))"

text \<open>
  \<^verbatim>\<open>pd.DataFrame({i['name']: i['attributes'] for i in all_entities}).T\<close>: one row for each
  name, with the attributes of the last entity of that name.
\<close>

definition entity_frame :: "entity list \<Rightarrow> dataframe" where
  "entity_frame all_entities =
     \<lparr>df_index = rev (remdups (rev (map fst all_entities))),
      df_columns = remdups (concat (map (\<lambda>e. map fst (snd e)) all_entities)),
      df_cell = (\<lambda>i c. case map_of (rev all_entities) i of
                          None \<Rightarrow> None
                        | Some a \<Rightarrow> map_of a c)\<rparr>"

definition get_entities :: "remote \<Rightarrow> string \<Rightarrow> error + dataframe" where
  "get_entities st etype =
     (case get_entities_query st etype 1 of
        Inl e \<Rightarrow> Inl e
      | Inr r \<Rightarrow>
          (case get_pages st etype [2..<filteredPageCount r + 1] (results r) of
             Inl e \<Rightarrow> Inl e
           | Inr all_entities \<Rightarrow> Inr (entity_frame all_entities)))"

text \<open>\<^verbatim>\<open>x['entityName']\<close> on a cell of the column \<^verbatim>\<open>participant\<close>.\<close>

definition entity_name_of :: "attr_value option \<Rightarrow> error + attr_value" where
  "entity_name_of x =
     (case x of
        None \<Rightarrow> Inl TypeError
      | Some (Scalar s) \<Rightarrow> Inl TypeError
      | Some (EntityReference r) \<Rightarrow> Inr (Scalar (entityName r))
      | Some (ReferenceList l) \<Rightarrow> Inl KeyError)"

text \<open>The first exception that a list of results holds, if any.\<close>

fun first_error :: "(error + 'a) list \<Rightarrow> error option" where
  "first_error [] = None"
| "first_error (Inl e # xs) = Some e"
| "first_error (Inr v # xs) = first_error xs"

definition get_samples :: "remote \<Rightarrow> error + dataframe" where
  "get_samples st =
     (case get_entities st ''sample'' of
        Inl e \<Rightarrow> Inl e
      | Inr df \<Rightarrow>
          if ''participant'' \<notin> set (df_columns df) then Inl KeyError
          else case first_error (map (\<lambda>i. entity_name_of (df_cell df i ''participant''))
                      (df_index df)) of
            Some e \<Rightarrow> Inl e
          | None \<Rightarrow>
              Inr (df\<lparr>df_cell := (\<lambda>i c.
                if c = ''participant''
                then (case entity_name_of (df_cell df i c) of Inl e \<Rightarrow> None | Inr v \<Rightarrow> Some v)
                else df_cell df i c)\<rparr>))"

text \<open>
  \<^verbatim>\<open>get_sample_sets\<close>: the table is filled cell by cell; an attribute that is a
  dictionary is read through its \<^verbatim>\<open>'items'\<close>, which a single reference has not.
\<close>

definition is_reference :: "attr_value \<Rightarrow> bool" where
  "is_reference v = (case v of EntityReference r \<Rightarrow> True | _ \<Rightarrow> False)"

definition get_sample_sets :: "remote \<Rightarrow> error + dataframe" where
  "get_sample_sets st =
     (let r = api_get_entities st ''sample_set'' in
      if status_code r \<noteq> 200 then Inl AssertionError
      else case json r of
        Inl e \<Rightarrow> Inl e
      | Inr ents \<Rightarrow>
          if list_ex (\<lambda>s. list_ex (\<lambda>cv. is_reference (snd cv)) (snd s)) ents then Inl KeyError
          else Inr \<lparr>df_index = map fst ents,
                    df_columns = sort (remdups (concat (map (\<lambda>s. map fst (snd s)) ents))),
                    df_cell = (\<lambda>i c. case map_of (rev ents) i of
                                        None \<Rightarrow> None
                                      | Some a \<Rightarrow> map_of a c)\<rparr>)"

subsection \<open>The loop over the incomplete samples\<close>

text \<open>
  What the loop changes: the counters \<^verbatim>\<open>task_counts\<close>, the local variable \<^verbatim>\<open>metadata\<close>
  (\<open>None\<close> while it is unbound), and the remote.
\<close>

record patch_state =
  task_counts :: "(string \<times> nat) list"
  metadata_var :: "metadata option"
  rem :: remote

text \<open>\<^verbatim>\<open>task_counts[key] += 1\<close> on a \<^verbatim>\<open>defaultdict(int)\<close>.\<close>

definition increment :: "string \<Rightarrow> (string \<times> nat) list \<Rightarrow> (string \<times> nat) list" where
  "increment key counts =
     AList.update key (case map_of counts key of None \<Rightarrow> 1 | Some n \<Rightarrow> n + 1) counts"

text \<open>
  The loop over \<^verbatim>\<open>metadata['calls']\<close>, lines 541 to 550. The result is the exception
  raised, if any, and the state reached.
\<close>

fun patch_tasks ::
  "bool \<Rightarrow> (string \<times> string) list \<Rightarrow> dataframe \<Rightarrow> string \<Rightarrow> (string \<times> attempt list) list \<Rightarrow>
   patch_state \<Rightarrow> error option \<times> patch_state" where
  "patch_tasks dry_run output_map incomplete_df sample_id [] s = (None, s)"
| "patch_tasks dry_run output_map incomplete_df sample_id (task # tasks) s =
     (if snd task = [] then (Some IndexError, s)
      else case outputs (last (snd task)) of
        None \<Rightarrow> patch_tasks dry_run output_map incomplete_df sample_id tasks s
      | Some outs \<Rightarrow>
          if \<not> list_all (\<lambda>k. k \<in> fst ` set output_map) (map fst outs)
          then patch_tasks dry_run output_map incomplete_df sample_id tasks s
          else case lookup_all output_map (map fst outs) of
            Inl e \<Rightarrow> (Some e, s)
          | Inr cols \<Rightarrow>
              if \<not> list_all (\<lambda>c. c \<in> set (df_columns incomplete_df)) cols then (Some KeyError, s)
              else if \<not> list_ex (\<lambda>c. df_cell incomplete_df sample_id c = None) cols
              then patch_tasks dry_run output_map incomplete_df sample_id tasks s
              else if dry_run
              then patch_tasks dry_run output_map incomplete_df sample_id tasks
                     (s\<lparr>task_counts := increment (rsplit_last CHR ''.'' (fst task)) (task_counts s)\<rparr>)
              else case update_sample_attributes sample_id
                          (PyDict (dict_of (zip cols (map snd outs)))) (rem s) of
                (Inl e, st) \<Rightarrow> (Some e, s\<lparr>rem := st\<rparr>)
              | (Inr u, st) \<Rightarrow>
                  patch_tasks dry_run output_map incomplete_df sample_id tasks
                    (s\<lparr>rem := st,
                       task_counts := increment (rsplit_last CHR ''.'' (fst task)) (task_counts s)\<rparr>))"

text \<open>\<^verbatim>\<open>sample_status_df.loc[sample_id, ..]\<close>.\<close>

definition status_row :: "entity_dict \<Rightarrow> string \<Rightarrow> error + entity_status" where
  "status_row status_df i = (case map_of status_df i of None \<Rightarrow> Inl KeyError | Some r \<Rightarrow> Inr r)"

text \<open>The body of the \<^verbatim>\<open>try\<close>, lines 536 to 550.\<close>

definition try_sample ::
  "bool \<Rightarrow> (string \<times> string) list \<Rightarrow> dataframe \<Rightarrow> entity_dict \<Rightarrow> string \<Rightarrow>
   patch_state \<Rightarrow> error option \<times> patch_state" where
  "try_sample dry_run output_map incomplete_df sample_status_df sample_id s =
     (case status_row sample_status_df sample_id of
        Inl e \<Rightarrow> (Some e, s)
      | Inr row \<Rightarrow>
          (case get_workflow_metadata (api_get_workflow_metadata (rem s))
                  (es_submission_id row) (es_workflow_id row) of
             Inl e \<Rightarrow> (Some e, s)
           | Inr metadata \<Rightarrow>
               (let s1 = s\<lparr>metadata_var := Some metadata\<rparr> in
                case workflow_outputs metadata of
                  None \<Rightarrow> patch_tasks dry_run output_map incomplete_df sample_id (calls metadata) s1
                | Some outs \<Rightarrow>
                    if outs \<noteq> [] \<and> \<not> dry_run
                    then case lookup_all output_map (map (\<lambda>kt. rsplit_last CHR ''.'' (fst kt)) outs) of
                      Inl e \<Rightarrow> (Some e, s1)
                    | Inr names \<Rightarrow>
                        (case update_sample_attributes sample_id
                                (PyDict (dict_of (zip names (map snd outs)))) (rem s1) of
                           (Inl e, st) \<Rightarrow> (Some e, s1\<lparr>rem := st\<rparr>)
                         | (Inr u, st) \<Rightarrow> (None, s1\<lparr>rem := st\<rparr>))
                    else patch_tasks dry_run output_map incomplete_df sample_id (calls metadata) s1)))"

text \<open>
  The handler, lines 552 and 553: after the message it prints \<^verbatim>\<open>metadata.json()\<close>, on
  the local variable \<^verbatim>\<open>metadata\<close> as the \<^verbatim>\<open>try\<close> left it.
\<close>

definition handler :: "metadata option \<Rightarrow> error option" where
  "handler metadata =
     (case metadata of
        None \<Rightarrow> Some UnboundLocalError
      | Some d \<Rightarrow> (case dot_json (Dict d) of Inl e \<Rightarrow> Some e | Inr j \<Rightarrow> None))"

text \<open>The loop over \<^verbatim>\<open>incomplete_df.index\<close>, lines 532 to 553.\<close>

fun patch_samples ::
  "bool \<Rightarrow> (string \<times> string) list \<Rightarrow> dataframe \<Rightarrow> entity_dict \<Rightarrow> string list \<Rightarrow>
   patch_state \<Rightarrow> error option \<times> patch_state" where
  "patch_samples dry_run output_map incomplete_df sample_status_df [] s = (None, s)"
| "patch_samples dry_run output_map incomplete_df sample_status_df (sample_id # index) s =
     (case try_sample dry_run output_map incomplete_df sample_status_df sample_id s of
        (None, s') \<Rightarrow> patch_samples dry_run output_map incomplete_df sample_status_df index s'
      | (Some e, s') \<Rightarrow>
          (case handler (metadata_var s') of
             Some e' \<Rightarrow> (Some e', s')
           | None \<Rightarrow> patch_samples dry_run output_map incomplete_df sample_status_df index s'))"

subsection \<open>The loop over the incomplete sample sets\<close>

text \<open>Lines 573 to 578: no handler here, an exception leaves the function.\<close>

fun patch_sample_sets ::
  "bool \<Rightarrow> (string \<times> string) list \<Rightarrow> entity_dict \<Rightarrow> string list \<Rightarrow> remote \<Rightarrow>
   error option \<times> remote" where
  "patch_sample_sets dry_run output_map sample_set_status_df [] st = (None, st)"
| "patch_sample_sets dry_run output_map sample_set_status_df (sample_set_id # index) st =
     (case status_row sample_set_status_df sample_set_id of
        Inl e \<Rightarrow> (Some e, st)
      | Inr row \<Rightarrow>
          (case get_workflow_metadata (api_get_workflow_metadata st)
                  (es_submission_id row) (es_workflow_id row) of
             Inl e \<Rightarrow> (Some e, st)
           | Inr metadata \<Rightarrow>
               (case workflow_outputs metadata of
                  None \<Rightarrow> patch_sample_sets dry_run output_map sample_set_status_df index st
                | Some outs \<Rightarrow>
                    if outs \<noteq> [] \<and> \<not> dry_run
                    then case lookup_all output_map (map (\<lambda>kt. rsplit_last CHR ''.'' (fst kt)) outs) of
                      Inl e \<Rightarrow> (Some e, st)
                    | Inr names \<Rightarrow>
                        (case update_sample_set_attributes sample_set_id
                                (PyDict (dict_of (zip names (map snd outs)))) st of
                           (Inl e, st') \<Rightarrow> (Some e, st')
                         | (Inr u, st') \<Rightarrow>
                             patch_sample_sets dry_run output_map sample_set_status_df index st')
                    else patch_sample_sets dry_run output_map sample_set_status_df index st)))"

subsection \<open>\<^verbatim>\<open>patch_attributes\<close>\<close>

text \<open>Lines 504 to 508: the expected outputs of the configuration.\<close>

definition expected_outputs :: "remote \<Rightarrow> string \<Rightarrow> string \<Rightarrow> error + (string \<times> string) list" where
  "expected_outputs st cnamespace configuration =
     (let r = api_get_workspace_config st cnamespace configuration in
      if status_code r \<noteq> 200 then Inl AssertionError
      else case json r of
        Inl e \<Rightarrow> Inl e
      | Inr outs \<Rightarrow>
          Inr (dict_of (map (\<lambda>ij. (rsplit_last CHR ''.'' (fst ij), split_last ''this.'' (snd ij))) outs)))"

text \<open>Lines 514 to 517: the samples that lack an expected attribute.\<close>

definition incomplete_samples :: "string list \<Rightarrow> dataframe \<Rightarrow> error + dataframe" where
  "incomplete_samples columns samples_df =
     (if list_ex (\<lambda>c. c \<in> set (df_columns samples_df)) columns
      then if \<not> list_all (\<lambda>c. c \<in> set (df_columns samples_df)) columns then Inl KeyError
           else Inr (samples_df\<lparr>df_index :=
                  filter (\<lambda>i. list_ex (\<lambda>c. df_cell samples_df i c = None) columns)
                    (df_index samples_df)\<rparr>)
      else Inr \<lparr>df_index = df_index samples_df, df_columns = columns, df_cell = (\<lambda>i c. None)\<rparr>)"

text \<open>Lines 565 and 566: the sample sets with a status that lack an expected attribute.\<close>

definition incomplete_sample_sets :: "string list \<Rightarrow> entity_dict \<Rightarrow> dataframe \<Rightarrow> error + dataframe" where
  "incomplete_sample_sets columns sample_set_status_df sample_set_df =
     (if \<not> (list_all (\<lambda>i. i \<in> set (df_index sample_set_df)) (map fst sample_set_status_df)
            \<and> list_all (\<lambda>c. c \<in> set (df_columns sample_set_df)) columns)
      then Inl KeyError
      else Inr \<lparr>df_index =
                  filter (\<lambda>i. list_ex (\<lambda>c. df_cell sample_set_df i c = None) columns)
                    (map fst sample_set_status_df),
                df_columns = columns, df_cell = df_cell sample_set_df\<rparr>)"

text \<open>
  The function. Its result is what it reports, the counters of the patched tasks, or the
  exception that leaves it, together with the remote after the call. The messages it
  prints on the way are left out.
\<close>

definition patch_attributes ::
  "string \<Rightarrow> string \<Rightarrow> bool \<Rightarrow> string \<Rightarrow> remote \<Rightarrow> (error + (string \<times> nat) list) \<times> remote" where
  "patch_attributes cnamespace configuration dry_run entity st =
     (case expected_outputs st cnamespace configuration of
        Inl e \<Rightarrow> (Inl e, st)
      | Inr output_map \<Rightarrow>
          (let columns = map snd output_map in
           if entity = ''sample'' then
             (case get_samples st of
                Inl e \<Rightarrow> (Inl e, st)
              | Inr samples_df \<Rightarrow>
                  (case incomplete_samples columns samples_df of
                     Inl e \<Rightarrow> (Inl e, st)
                   | Inr incomplete_df \<Rightarrow>
                       (case get_sample_status st (Some configuration) of
                          Inl e \<Rightarrow> (Inl e, st)
                        | Inr sample_status_df \<Rightarrow>
                            if \<not> list_all (\<lambda>i. i \<in> fst ` set sample_status_df) (df_index incomplete_df)
                            then (Inl KeyError, st)
                            else
                              (case patch_samples dry_run output_map incomplete_df sample_status_df
                                      (df_index incomplete_df)
                                      \<lparr>task_counts = [], metadata_var = None, rem = st\<rparr> of
                                 (Some e, s) \<Rightarrow> (Inl e, rem s)
                               | (None, s) \<Rightarrow> (Inr (task_counts s), rem s)))))
           else if entity = ''sample_set'' then
             (case get_sample_sets st of
                Inl e \<Rightarrow> (Inl e, st)
              | Inr sample_set_df \<Rightarrow>
                  (case get_sample_set_status st (Some configuration) of
                     Inl e \<Rightarrow> (Inl e, st)
                   | Inr sample_set_status_df \<Rightarrow>
                       (case incomplete_sample_sets columns sample_set_status_df sample_set_df of
                          Inl e \<Rightarrow> (Inl e, st)
                        | Inr incomplete_df \<Rightarrow>
                            if list_ex (\<lambda>i. map_option es_status (map_of sample_set_status_df i)
                                          = Some ''Succeeded'') (df_index incomplete_df)
                            then (case patch_sample_sets dry_run output_map sample_set_status_df
                                         (df_index incomplete_df) st of
                                    (Some e, st') \<Rightarrow> (Inl e, st')
                                  | (None, st') \<Rightarrow> (Inr [], st'))
                            else (Inr [], st))))
           else (Inr [], st)))"

section \<open>Example inputs\<close>

definition sample_S1 :: entity_ref where
  "sample_S1 = \<lparr>entityType = ''sample'', entityName = ''S1''\<rparr>"

definition sub1 :: submission where
  "sub1 = \<lparr>submissionId = ''sub-1'', submissionDate = 100,
     methodConfigurationName = ''wgs_pipeline'', submissionEntity = sample_S1\<rparr>"

definition sub2 :: submission where
  "sub2 = \<lparr>submissionId = ''sub-2'', submissionDate = 200,
     methodConfigurationName = ''wgs_pipeline'', submissionEntity = sample_S1\<rparr>"

definition sub3 :: submission where
  "sub3 = \<lparr>submissionId = ''sub-3'', submissionDate = 200,
     methodConfigurationName = ''wgs_pipeline'', submissionEntity = sample_S1\<rparr>"

definition wf1 :: workflow where
  "wf1 = \<lparr>workflowEntity = sample_S1, status = ''Failed'', workflowId = Some ''wf-1''\<rparr>"

definition wf2 :: workflow where
  "wf2 = \<lparr>workflowEntity = sample_S1, status = ''Succeeded'', workflowId = Some ''wf-2''\<rparr>"

definition wf3 :: workflow where
  "wf3 = \<lparr>workflowEntity = sample_S1, status = ''Aborted'', workflowId = None\<rparr>"

definition tie_api :: submission_api where
  "tie_api = \<lparr>api_list_submissions = \<lparr>status_code = 200, body = Some [sub1, sub2, sub3]\<rparr>,
     api_get_submission = (\<lambda>i.
       if i = ''sub-1'' then \<lparr>status_code = 200, body = Some \<lparr>workflows = [wf1]\<rparr>\<rparr>
       else if i = ''sub-2'' then \<lparr>status_code = 200, body = Some \<lparr>workflows = [wf2]\<rparr>\<rparr>
       else if i = ''sub-3'' then \<lparr>status_code = 200, body = Some \<lparr>workflows = [wf3]\<rparr>\<rparr>
       else \<lparr>status_code = 404, body = None\<rparr>)\<rparr>"

definition down_api :: submission_api where
  "down_api = \<lparr>api_list_submissions = \<lparr>status_code = 200, body = Some [sub1, sub2]\<rparr>,
     api_get_submission = (\<lambda>i.
       if i = ''sub-1'' then \<lparr>status_code = 200, body = Some \<lparr>workflows = [wf1]\<rparr>\<rparr>
       else \<lparr>status_code = 500, body = None\<rparr>)\<rparr>"

text \<open>A pricing table, a clock and an \<^verbatim>\<open>int\<close> for the examples.\<close>

definition example_env :: environment where
  "example_env =
     \<lparr>get_vm_cost = (\<lambda>m p. if p then 1 / 20 else 1 / 5),
      local_hm = (\<lambda>t. ''09:30''),
      py_int = (\<lambda>s. if s = ''8'' then Some 8 else None)\<rparr>"

text \<open>An attempt of two hours that waited half an hour for quota.\<close>

definition quota_attempt :: attempt where
  "quota_attempt =
     \<lparr>start = 0, end_time = 7200, shardIndex = None,
      executionEvents =
        [\<lparr>description = ''waiting for quota'', startTime = 0, endTime = 1800\<rparr>,
         \<lparr>description = ''running'', startTime = 1800, endTime = 7200\<rparr>],
      callCaching_hit = Some False, preemptible = False,
      jes_machineType = ''us-central1-b/n1-standard-8'', jobId = ''job-q'', outputs = None\<rparr>"

text \<open>Three attempts of the shard 0: one hour, two hours, half an hour.\<close>

definition shard1 :: attempt where
  "shard1 =
     \<lparr>start = 0, end_time = 3600, shardIndex = Some 0, executionEvents = [],
      callCaching_hit = Some False, preemptible = True,
      jes_machineType = ''us-central1-b/n1-standard-8'', jobId = ''job-1'', outputs = None\<rparr>"

definition shard2 :: attempt where
  "shard2 =
     \<lparr>start = 3600, end_time = 10800, shardIndex = Some 0, executionEvents = [],
      callCaching_hit = Some False, preemptible = True,
      jes_machineType = ''us-central1-b/n1-standard-8'', jobId = ''job-2'', outputs = None\<rparr>"

definition shard3 :: attempt where
  "shard3 =
     \<lparr>start = 10800, end_time = 12600, shardIndex = Some 0, executionEvents = [],
      callCaching_hit = Some False, preemptible = False,
      jes_machineType = ''us-central1-b/n1-standard-8'', jobId = ''job-3'', outputs = None\<rparr>"

text \<open>An attempt of one hour that hit the call cache.\<close>

definition cached_attempt :: attempt where
  "cached_attempt =
     \<lparr>start = 0, end_time = 3600, shardIndex = None, executionEvents = [],
      callCaching_hit = Some True, preemptible = False,
      jes_machineType = ''us-central1-b/n1-standard-8'', jobId = ''job-c'', outputs = None\<rparr>"

definition succeeded_S1 :: "string \<times> entity_status" where
  "succeeded_S1 =
     (''S1'', \<lparr>es_status = ''Succeeded'', es_timestamp = 200, es_workflow_id = ''wf-2'',
              es_submission_id = ''sub-2'', es_configuration = ''wgs_pipeline''\<rparr>)"

definition sharded_metadata :: metadata where
  "sharded_metadata =
     \<lparr>start = 0, end_time = 12600, workflowName = ''wgs'',
      calls = [(''wgs.align'', [shard1, shard2, shard3])], workflow_outputs = None\<rparr>"

definition cached_metadata :: metadata where
  "cached_metadata =
     \<lparr>start = 0, end_time = 3600, workflowName = ''wgs'',
      calls = [(''wgs.align'', [cached_attempt])], workflow_outputs = None\<rparr>"

text \<open>The rows that \<open>task_row\<close> computes for these attempts.\<close>

definition quota_row :: task_stats where
  "quota_row =
     \<lparr>time_h = Some (3 / 2), total_time_h = Some (3 / 2), max_preempt_time_h = None,
      machine_type = Some ''n1-standard-8'', attempts = Some 1, start_time = Some ''09:30'',
      est_cost = Some (2 / 5), job_ids = Some ''job-q''\<rparr>"

definition sharded_row :: task_stats where
  "sharded_row =
     \<lparr>time_h = Some (1 / 2), total_time_h = Some (7 / 2), max_preempt_time_h = Some 2,
      machine_type = Some ''n1-standard-8'', attempts = Some 3, start_time = Some ''09:30'',
      est_cost = Some (1 / 4), job_ids = Some ''job-3''\<rparr>"

definition cached_row :: task_stats where
  "cached_row =
     \<lparr>time_h = Some 1, total_time_h = Some 1, max_preempt_time_h = None,
      machine_type = None, attempts = None, start_time = None,
      est_cost = None, job_ids = None\<rparr>"

text \<open>A remote that answers every request for metadata with 200 and a body.\<close>

definition always_ok :: "nat \<Rightarrow> string \<Rightarrow> string \<Rightarrow> metadata response" where
  "always_ok n submission_id workflow_id = \<lparr>status_code = 200, body = Some sharded_metadata\<rparr>"

text \<open>
  A remote that answers every request for metadata with 200 and the body \<open>md\<close>; the
  metadata of a workflow whose task waited for quota, of one whose retried task began
  with an attempt that is not preemptible, and of one with a cached and a computed task.
\<close>

definition serve :: "metadata \<Rightarrow> nat \<Rightarrow> string \<Rightarrow> string \<Rightarrow> metadata response" where
  "serve md n submission_id workflow_id = \<lparr>status_code = 200, body = Some md\<rparr>"

definition quota_metadata :: metadata where
  "quota_metadata =
     \<lparr>start = 0, end_time = 7200, workflowName = ''wgs'',
      calls = [(''wgs.align'', [quota_attempt])], workflow_outputs = None\<rparr>"

definition unpreemptible_metadata :: metadata where
  "unpreemptible_metadata =
     \<lparr>start = 0, end_time = 12600, workflowName = ''wgs'',
      calls = [(''wgs.align'', [shard3, shard2])], workflow_outputs = None\<rparr>"

definition mixed_metadata :: metadata where
  "mixed_metadata =
     \<lparr>start = 0, end_time = 7200, workflowName = ''wgs'',
      calls = [(''wgs.call'', [quota_attempt]), (''wgs.align'', [cached_attempt])],
      workflow_outputs = None\<rparr>"

definition mixed_stats :: workflow_stats where
  "mixed_stats =
     \<lparr>w_status = snd succeeded_S1, w_est_cost = 2 / 5, w_time_h = 2, w_cpu_hours = 13,
      w_start_time = ''09:30''\<rparr>"

text \<open>
  A workspace with two samples that lack the attribute \<open>vcf_path\<close>. Each has a failed
  workflow whose task \<open>VariantCall\<close> produced \<open>output_vcf\<close>; in \<open>patch_remote\<close> the
  remote answers 500 to the request for the metadata of the first.
\<close>

definition sample_S2 :: entity_ref where
  "sample_S2 = \<lparr>entityType = ''sample'', entityName = ''S2''\<rparr>"

definition sub9 :: submission where
  "sub9 = \<lparr>submissionId = ''sub-9'', submissionDate = 300,
     methodConfigurationName = ''wgs_pipeline'', submissionEntity = sample_S2\<rparr>"

definition wf9 :: workflow where
  "wf9 = \<lparr>workflowEntity = sample_S2, status = ''Failed'', workflowId = Some ''wf-9''\<rparr>"

definition variant_call :: attempt where
  "variant_call =
     \<lparr>start = 0, end_time = 3600, shardIndex = None, executionEvents = [],
      callCaching_hit = None, preemptible = False,
      jes_machineType = ''us-central1-b/n1-standard-8'', jobId = ''job-v'',
      outputs = Some [(''output_vcf'', ''gs://bucket/sample.vcf'')]\<rparr>"

definition failed_metadata :: metadata where
  "failed_metadata =
     \<lparr>start = 0, end_time = 7200, workflowName = ''wgs'',
      calls = [(''wgs.VariantCall'', [variant_call])], workflow_outputs = Some []\<rparr>"

definition participant_P1 :: attr_value where
  "participant_P1 = EntityReference \<lparr>entityType = ''participant'', entityName = ''P1''\<rparr>"

definition patch_remote :: remote where
  "patch_remote =
     \<lparr>api_list_submissions = \<lparr>status_code = 200, body = Some [sub1, sub9]\<rparr>,
      api_get_submission = (\<lambda>i.
        if i = ''sub-1'' then \<lparr>status_code = 200, body = Some \<lparr>workflows = [wf1]\<rparr>\<rparr>
        else if i = ''sub-9'' then \<lparr>status_code = 200, body = Some \<lparr>workflows = [wf9]\<rparr>\<rparr>
        else \<lparr>status_code = 404, body = None\<rparr>),
      api_get_workflow_metadata = (\<lambda>s w.
        if s = ''sub-9'' then \<lparr>status_code = 200, body = Some failed_metadata\<rparr>
        else \<lparr>status_code = 500, body = None\<rparr>),
      api_get_workspace_config = (\<lambda>n c.
        \<lparr>status_code = 200, body = Some [(''wgs.VariantCall.output_vcf'', ''this.vcf_path'')]\<rparr>),
      api_get_entities_query = (\<lambda>t p.
        \<lparr>status_code = 200,
         body = Some \<lparr>filteredPageCount = 1,
                      results = [(''S1'', [(''participant'', participant_P1)]),
                                 (''S2'', [(''participant'', participant_P1)])]\<rparr>\<rparr>),
      api_get_entities = (\<lambda>t. \<lparr>status_code = 200, body = Some []\<rparr>),
      batch_updates = []\<rparr>"

definition healthy_remote :: remote where
  "healthy_remote =
     patch_remote\<lparr>api_get_workflow_metadata :=
       (\<lambda>s w. \<lparr>status_code = 200, body = Some failed_metadata\<rparr>)\<rparr>"

definition patch_status :: entity_dict where
  "patch_status =
     [(''S1'', \<lparr>es_status = ''Failed'', es_timestamp = 100, es_workflow_id = ''wf-1'',
               es_submission_id = ''sub-1'', es_configuration = ''wgs_pipeline''\<rparr>),
      (''S2'', \<lparr>es_status = ''Failed'', es_timestamp = 300, es_workflow_id = ''wf-9'',
               es_submission_id = ''sub-9'', es_configuration = ''wgs_pipeline''\<rparr>)]"

definition patch_frame :: dataframe where
  "patch_frame = \<lparr>df_index = [''S1'', ''S2''], df_columns = [''vcf_path''], df_cell = (\<lambda>i c. None)\<rparr>"

section \<open>Properties of the status aggregation\<close>

lemma foldl_record_workflow:
  "foldl (record_workflow s (submissionDate s)) d ws = foldl visit d (map (Pair s) ws)"
  by (induction ws arbitrary: d) (simp_all add: visit_def stamp_of_def)

lemma scan_submissions_foldl:
  "scan_submissions api etype subs d = Inr d' \<Longrightarrow> d' = foldl visit d (scanned api etype subs)"
proof (induction subs arbitrary: d)
  case Nil
  then show ?case by (simp add: scanned_def)
next
  case (Cons s subs)
  show ?case
  proof (cases "entityType (submissionEntity s) = etype")
    case False
    with Cons show ?thesis by (simp add: scanned_def)
  next
    case True
    with Cons.prems obtain r where r: "get_submission api (submissionId s) = Inr r"
      by (auto split: sum.splits)
    with True Cons.prems have
      "scan_submissions api etype subs (foldl (record_workflow s (submissionDate s)) d (workflows r)) = Inr d'"
      by simp
    from Cons.IH [OF this] show ?thesis
      using True r by (simp add: scanned_def detail_of_def foldl_record_workflow)
  qed
qed

lemma scan_submissions_error:
  "s \<in> set subs \<Longrightarrow> entityType (submissionEntity s) = etype \<Longrightarrow>
   status_code (api_get_submission api (submissionId s)) \<noteq> 200 \<Longrightarrow>
   \<exists>e. scan_submissions api etype subs d = Inl e"
proof (induction subs arbitrary: d)
  case Nil
  then show ?case by simp
next
  case (Cons a subs)
  show ?case
  proof (cases "a = s")
    case True
    with Cons.prems show ?thesis by (simp add: get_submission_def)
  next
    case False
    with Cons.prems have "s \<in> set subs" by simp
    from Cons.IH [OF this Cons.prems(2) Cons.prems(3)] show ?thesis
      by (auto split: sum.splits)
  qed
qed

lemma map_of_visit:
  "map_of (visit d p) e = (if entity_of p = e then keep (map_of d e) p else map_of d e)"
  by (auto simp: visit_def record_workflow_def keep_def entity_of_def status_of_def stamp_of_def
      Let_def update_conv' split: option.splits)

lemma map_of_foldl_visit:
  "map_of (foldl visit d ps) e = foldl keep (map_of d e) (filter (\<lambda>p. entity_of p = e) ps)"
  by (induction ps arbitrary: d) (simp_all add: map_of_visit)

lemma distinct_visit: "distinct (map fst d) \<Longrightarrow> distinct (map fst (visit d p))"
  by (simp add: visit_def record_workflow_def Let_def distinct_update)

lemma distinct_foldl_visit: "distinct (map fst d) \<Longrightarrow> distinct (map fst (foldl visit d ps))"
  by (induction ps arbitrary: d) (simp_all add: distinct_visit)

lemma foldl_keep_first_max:
  "ps \<noteq> [] \<Longrightarrow>
   \<exists>i<length ps. foldl keep None ps = Some (status_of (ps ! i)) \<and>
     (\<forall>j<i. stamp_of (ps ! j) < stamp_of (ps ! i)) \<and>
     (\<forall>j<length ps. stamp_of (ps ! j) \<le> stamp_of (ps ! i))"
proof (induction ps rule: rev_induct)
  case Nil
  then show ?case by simp
next
  case (snoc p ps)
  show ?case
  proof (cases "ps = []")
    case True
    then show ?thesis by (simp add: keep_def)
  next
    case False
    from snoc.IH [OF this] obtain i where i: "i < length ps"
      "foldl keep None ps = Some (status_of (ps ! i))"
      "\<forall>j<i. stamp_of (ps ! j) < stamp_of (ps ! i)"
      "\<forall>j<length ps. stamp_of (ps ! j) \<le> stamp_of (ps ! i)" by blast
    have ts: "es_timestamp (status_of (ps ! i)) = stamp_of (ps ! i)"
      by (simp add: status_of_def new_status_def stamp_of_def)
    show ?thesis
    proof (cases "stamp_of (ps ! i) < stamp_of p")
      case True
      have "foldl keep None (ps @ [p]) = Some (status_of ((ps @ [p]) ! length ps))"
        using i(2) True ts by (simp add: keep_def)
      moreover have "\<forall>j<length ps. stamp_of ((ps @ [p]) ! j) < stamp_of ((ps @ [p]) ! length ps)"
        using i(4) True by (auto simp: nth_append)
      moreover have "\<forall>j<length (ps @ [p]). stamp_of ((ps @ [p]) ! j) \<le> stamp_of ((ps @ [p]) ! length ps)"
        using i(4) True by (auto simp: nth_append less_Suc_eq)
      ultimately show ?thesis by (intro exI [of _ "length ps"]) simp
    next
      case False
      have "foldl keep None (ps @ [p]) = Some (status_of ((ps @ [p]) ! i))"
        using i(1,2) False ts by (simp add: keep_def nth_append)
      moreover have "\<forall>j<i. stamp_of ((ps @ [p]) ! j) < stamp_of ((ps @ [p]) ! i)"
        using i(1,3) by (auto simp: nth_append)
      moreover have "\<forall>j<length (ps @ [p]). stamp_of ((ps @ [p]) ! j) \<le> stamp_of ((ps @ [p]) ! i)"
        using i(1,4) False by (auto simp: nth_append less_Suc_eq)
      ultimately show ?thesis using i(1) by (intro exI [of _ i]) simp
    qed
  qed
qed

lemma get_entity_status_foldl:
  assumes "get_entity_status api etype config = Inr df"
    and "list_submissions api config = Inr submissions"
  shows "df = foldl visit [] (scanned api etype submissions)"
  using assms by (auto simp: get_entity_status_def split: sum.splits if_splits
      dest: scan_submissions_foldl)

lemma first_max_is_Max:
  assumes "i < length ps" "\<forall>j<length ps. stamp_of (ps ! j) \<le> stamp_of (ps ! i)"
  shows "stamp_of (ps ! i) = Max (stamp_of ` set ps)"
proof -
  have "stamp_of (ps ! i) \<in> stamp_of ` set ps" using assms(1) by simp
  moreover have "\<forall>x\<in>stamp_of ` set ps. x \<le> stamp_of (ps ! i)"
  proof
    fix x assume "x \<in> stamp_of ` set ps"
    then obtain j where "j < length ps" "x = stamp_of (ps ! j)"
      by (metis imageE in_set_conv_nth)
    with assms(2) show "x \<le> stamp_of (ps ! i)" by simp
  qed
  ultimately show ?thesis by (intro Max_eqI [symmetric]) auto
qed

lemma one_row:
  "distinct (map fst df) \<Longrightarrow> map_of df e = Some r \<Longrightarrow> length (filter (\<lambda>row. fst row = e) df) = 1"
proof (induction df)
  case Nil
  then show ?case by simp
next
  case (Cons a df)
  show ?case
  proof (cases "fst a = e")
    case True
    with Cons.prems(1) have "e \<notin> fst ` set df" by simp
    then have "\<forall>row\<in>set df. fst row \<noteq> e"
      by (auto simp: image_iff)
    then have "filter (\<lambda>row. fst row = e) df = []"
      by (simp add: filter_empty_conv)
    with True show ?thesis by simp
  next
    case False
    with Cons show ?thesis by simp
  qed
qed

text \<open>
  The aggregation returns a table when every fetch of a submission of the requested type
  succeeds and some workflow names an entity.
\<close>

lemma scan_submissions_returns:
  assumes "\<And>s. s \<in> set subs \<Longrightarrow> entityType (submissionEntity s) = etype \<Longrightarrow>
             \<exists>r. get_submission api (submissionId s) = Inr r"
  shows "\<exists>d'. scan_submissions api etype subs d = Inr d'"
  using assms
proof (induction subs arbitrary: d)
  case Nil
  then show ?case by simp
next
  case (Cons a subs)
  have rest: "\<exists>d'. scan_submissions api etype subs d0 = Inr d'" for d0
    by (rule Cons.IH) (simp add: Cons.prems)
  show ?case
  proof (cases "entityType (submissionEntity a) = etype")
    case False
    with rest show ?thesis by simp
  next
    case True
    with Cons.prems [of a] obtain r where "get_submission api (submissionId a) = Inr r" by auto
    with True rest show ?thesis by simp
  qed
qed

lemma get_entity_status_returns:
  assumes "list_submissions api config = Inr submissions"
    and "\<And>s. s \<in> set submissions \<Longrightarrow> entityType (submissionEntity s) = etype \<Longrightarrow>
             \<exists>r. get_submission api (submissionId s) = Inr r"
    and "visits api etype submissions e \<noteq> []"
  shows "\<exists>df. get_entity_status api etype config = Inr df"
proof -
  from scan_submissions_returns [of submissions etype api "[]"] assms(2)
  obtain d where d: "scan_submissions api etype submissions [] = Inr d" by blast
  then have "d = foldl visit [] (scanned api etype submissions)"
    by (rule scan_submissions_foldl)
  then have "map_of d e = foldl keep None (visits api etype submissions e)"
    by (simp add: map_of_foldl_visit visits_def)
  with foldl_keep_first_max [OF assms(3)] have "map_of d e \<noteq> None" by auto
  then have "d \<noteq> []" by auto
  with d assms(1) show ?thesis by (simp add: get_entity_status_def)
qed

text \<open>
  Claim C3. When \<^verbatim>\<open>get_entity_status\<close> returns a table and some workflow of a submission
  of the requested type names the entity \<open>e\<close>, the table has exactly one row for \<open>e\<close>,
  and the timestamp of that row is the greatest submission timestamp among the visits of
  the scan that name \<open>e\<close>. A step of the scan leaves the dictionary as it is when the
  entity is recorded with a timestamp that is not strictly smaller than the new one.
\<close>

theorem latest_status_is_maximum:
  assumes "get_entity_status api etype config = Inr df"
    and "list_submissions api config = Inr submissions"
    and "visits api etype submissions e \<noteq> []"
  shows "length (filter (\<lambda>row. fst row = e) df) = 1 \<and>
    (\<exists>r. map_of df e = Some r \<and>
       es_timestamp r = Max (stamp_of ` set (visits api etype submissions e))) \<and>
    (\<forall>s ts d w r. map_of d (entityName (workflowEntity w)) = Some r \<and> \<not> es_timestamp r < ts
       \<longrightarrow> record_workflow s ts d w = d)"
proof -
  let ?vs = "visits api etype submissions e"
  have df: "df = foldl visit [] (scanned api etype submissions)"
    using assms(1,2) by (rule get_entity_status_foldl)
  have m: "map_of df e = foldl keep None ?vs"
    by (simp add: df map_of_foldl_visit visits_def)
  from foldl_keep_first_max [OF assms(3)] obtain i where i: "i < length ?vs"
    "foldl keep None ?vs = Some (status_of (?vs ! i))"
    "\<forall>j<length ?vs. stamp_of (?vs ! j) \<le> stamp_of (?vs ! i)" by blast
  have ts: "es_timestamp (status_of (?vs ! i)) = stamp_of (?vs ! i)"
    by (simp add: status_of_def new_status_def stamp_of_def)
  have "distinct (map fst df)" by (simp add: df distinct_foldl_visit)
  then have one: "length (filter (\<lambda>row. fst row = e) df) = 1"
    using m i(2) by (intro one_row) simp_all
  have mx: "\<exists>r. map_of df e = Some r \<and> es_timestamp r = Max (stamp_of ` set ?vs)"
    using m i first_max_is_Max [OF i(1) i(3)] ts by simp
  have "\<forall>s ts d w r. map_of d (entityName (workflowEntity w)) = Some r \<and> \<not> es_timestamp r < ts
       \<longrightarrow> record_workflow s ts d w = d"
    by (simp add: record_workflow_def Let_def)
  with one mx show ?thesis by blast
qed

text \<open>
  Claim C5, as amended. The row kept for \<open>e\<close> is that of the first visit, in the order
  of the scan, whose timestamp is the greatest: every earlier visit of \<open>e\<close> has a
  strictly smaller timestamp, so among submissions of equal timestamps the one processed
  first is kept, not the one processed last.
\<close>

theorem tie_keeps_first_seen:
  assumes "get_entity_status api etype config = Inr df"
    and "list_submissions api config = Inr submissions"
    and "visits api etype submissions e \<noteq> []"
  shows "\<exists>i<length (visits api etype submissions e).
    map_of df e = Some (status_of (visits api etype submissions e ! i)) \<and>
    (\<forall>j<i. stamp_of (visits api etype submissions e ! j) < stamp_of (visits api etype submissions e ! i)) \<and>
    (\<forall>j<length (visits api etype submissions e).
       stamp_of (visits api etype submissions e ! j) \<le> stamp_of (visits api etype submissions e ! i))"
proof -
  have df: "df = foldl visit [] (scanned api etype submissions)"
    using assms(1,2) by (rule get_entity_status_foldl)
  have "map_of df e = foldl keep None (visits api etype submissions e)"
    by (simp add: df map_of_foldl_visit visits_def)
  with foldl_keep_first_max [OF assms(3)] show ?thesis by simp
qed

text \<open>
  Claim C8. If the remote answers the fetch of some listed submission of the requested
  type with a status code other than 200, \<^verbatim>\<open>get_entity_status\<close> raises: it returns an
  error and no table.
\<close>

theorem failed_fetch_aborts:
  assumes "list_submissions api config = Inr submissions"
    and "s \<in> set submissions"
    and "entityType (submissionEntity s) = etype"
    and "status_code (api_get_submission api (submissionId s)) \<noteq> 200"
  shows "\<exists>e. get_entity_status api etype config = Inl e"
proof -
  from scan_submissions_error [OF assms(2,3,4)]
  obtain e where "scan_submissions api etype submissions [] = Inl e" by blast
  with assms(1) show ?thesis by (simp add: get_entity_status_def)
qed

lemmas ex_defs = sample_S1_def sub1_def sub2_def sub3_def wf1_def wf2_def wf3_def tie_api_def down_api_def

lemma tie_list: "list_submissions tie_api None = Inr [sub1, sub2, sub3]"
  by (simp add: list_submissions_def json_def tie_api_def)

lemma tie_status:
  "get_entity_status tie_api ''sample'' None = Inr [(''S1'', status_of (sub2, wf2))]"
  by (simp add: get_entity_status_def tie_list)
     (simp add: ex_defs get_submission_def json_def record_workflow_def new_status_def status_of_def)

lemma tie_visits: "visits tie_api ''sample'' [sub1, sub2, sub3] ''S1'' = [(sub1, wf1), (sub2, wf2), (sub3, wf3)]"
  by (simp add: visits_def scanned_def detail_of_def entity_of_def get_submission_def json_def ex_defs)

text \<open>
  Three submissions for the sample \<open>S1\<close>, stamped 100, 200 and 200: the row kept is
  stamped 200.
\<close>

theorem latest_status_is_maximum_witness:
  "get_entity_status tie_api ''sample'' None = Inr [(''S1'', status_of (sub2, wf2))] \<and>
   length (filter (\<lambda>row. fst row = ''S1'') [(''S1'', status_of (sub2, wf2))]) = 1 \<and>
   es_timestamp (status_of (sub2, wf2)) = Max {100, 200}"
proof -
  have v: "visits tie_api ''sample'' [sub1, sub2, sub3] ''S1'' \<noteq> []" by (simp add: tie_visits)
  have "stamp_of ` set (visits tie_api ''sample'' [sub1, sub2, sub3] ''S1'') = {100, 200}"
    unfolding tie_visits by (simp add: stamp_of_def sub1_def sub2_def sub3_def)
  with latest_status_is_maximum [OF tie_status tie_list v] tie_status show ?thesis
    by simp
qed

text \<open>The same three submissions: the theorem of C5 at this input.\<close>

theorem tie_keeps_first_seen_witness:
  "\<exists>i<length [(sub1, wf1), (sub2, wf2), (sub3, wf3)].
    map_of [(''S1'', status_of (sub2, wf2))] ''S1'' = Some (status_of ([(sub1, wf1), (sub2, wf2), (sub3, wf3)] ! i)) \<and>
    (\<forall>j<i. stamp_of ([(sub1, wf1), (sub2, wf2), (sub3, wf3)] ! j) < stamp_of ([(sub1, wf1), (sub2, wf2), (sub3, wf3)] ! i)) \<and>
    (\<forall>j<length [(sub1, wf1), (sub2, wf2), (sub3, wf3)].
       stamp_of ([(sub1, wf1), (sub2, wf2), (sub3, wf3)] ! j) \<le> stamp_of ([(sub1, wf1), (sub2, wf2), (sub3, wf3)] ! i))"
proof -
  have v: "visits tie_api ''sample'' [sub1, sub2, sub3] ''S1'' \<noteq> []" by (simp add: tie_visits)
  from tie_keeps_first_seen [OF tie_status tie_list v] show ?thesis
    by (simp only: tie_visits)
qed

text \<open>
  Claim C5 as stated fails here: \<open>sub2\<close> and \<open>sub3\<close> carry the same timestamp, \<open>sub3\<close>
  is processed last, and the row kept is that of \<open>sub2\<close>.
\<close>

theorem last_seen_wins_counterexample:
  "submissionDate sub2 = submissionDate sub3 \<and>
   list_submissions tie_api None = Inr [sub1, sub2, sub3] \<and>
   get_entity_status tie_api ''sample'' None =
     Inr [(''S1'', \<lparr>es_status = ''Succeeded'', es_timestamp = 200, es_workflow_id = ''wf-2'',
            es_submission_id = ''sub-2'', es_configuration = ''wgs_pipeline''\<rparr>)]"
  by (simp add: tie_status tie_list) (simp add: status_of_def new_status_def ex_defs)

lemma down_list: "list_submissions down_api None = Inr [sub1, sub2]"
  by (simp add: list_submissions_def json_def down_api_def)

text \<open>The remote answers 500 for the second of two submissions: no table.\<close>

theorem failed_fetch_aborts_witness:
  "status_code (api_get_submission down_api (submissionId sub2)) = 500 \<and>
   (\<exists>e. get_entity_status down_api ''sample'' None = Inl e)"
proof -
  have a: "sub2 \<in> set [sub1, sub2]" by simp
  have b: "entityType (submissionEntity sub2) = ''sample''" by (simp add: ex_defs)
  have c: "status_code (api_get_submission down_api (submissionId sub2)) \<noteq> 200"
    by (simp add: ex_defs)
  have "status_code (api_get_submission down_api (submissionId sub2)) = 500"
    by (simp add: ex_defs)
  with failed_fetch_aborts [OF down_list a b c] show ?thesis by simp
qed

section \<open>Properties of the execution statistics\<close>

lemma sum_list_quota_time:
  "sum_list (quota_time successes) = sum_list (map quota_wait (map snd successes))"
  by (induction successes) (simp_all add: quota_time_def quota_wait_def)

lemma task_row_times:
  assumes "task_row env cs = Inr row" "resolve cs = Inr (successes, preemptions)"
  shows "time_h row = Some (sum_list (map (\<lambda>j. workflow_time j / 3600) (map snd successes))
                              - sum_list (quota_time successes))"
    and "total_time_h row = Some (sum_list (map (\<lambda>a. workflow_time a / 3600) cs)
                              - sum_list (quota_time successes))"
  using assms by (auto simp: task_row_def Let_def split: if_splits)

lemma sum_list_contribution:
  "sum_list (map contribution js) =
     sum_list (map (\<lambda>j. workflow_time j / 3600) js) - sum_list (map quota_wait js)"
  by (induction js) (simp_all add: contribution_def)

text \<open>
  What lines 732 to 740 compute: \<^verbatim>\<open>time_h\<close> is the sum, over the accepted attempts, of
  the wall-clock hours of the attempt minus the hours of its events described exactly as
  \<open>waiting for quota\<close>; \<^verbatim>\<open>total_time_h\<close> is the hours of all the attempts minus the
  same quota wait.
\<close>

lemma quota_wait_is_subtracted:
  assumes "task_row env cs = Inr row" and "resolve cs = Inr (successes, preemptions)"
  shows "time_h row = Some (sum_list (map contribution (map snd successes))) \<and>
    total_time_h row = Some (sum_list (map (\<lambda>a. workflow_time a / 3600) cs)
                              - sum_list (map quota_wait (map snd successes))) \<and>
    (\<forall>j q. workflow_time j / 3600 = 2 \<and>
       filter (\<lambda>e. description e = ''waiting for quota'') (executionEvents j) = [q] \<and>
       (endTime q - startTime q) / 3600 = 1 / 2 \<longrightarrow> contribution j = 3 / 2)"
proof -
  have a: "time_h row = Some (sum_list (map contribution (map snd successes)))"
    by (simp only: task_row_times(1) [OF assms] sum_list_contribution sum_list_quota_time)
  have b: "total_time_h row = Some (sum_list (map (\<lambda>a. workflow_time a / 3600) cs)
                              - sum_list (map quota_wait (map snd successes)))"
    by (simp only: task_row_times(2) [OF assms] sum_list_quota_time)
  have c: "\<forall>j q. workflow_time j / 3600 = 2 \<and>
       filter (\<lambda>e. description e = ''waiting for quota'') (executionEvents j) = [q] \<and>
       (endTime q - startTime q) / 3600 = 1 / 2 \<longrightarrow> contribution j = 3 / 2"
    by (simp add: contribution_def quota_wait_def)
  from a b c show ?thesis by blast
qed

lemma resolve_shards_index:
  "resolve_shards js succ pre = Inr (succ', pre') \<Longrightarrow>
   map_of succ' k = (if with_index k js = [] then map_of succ k else Some (last (with_index k js))) \<and>
   with_index k pre' = with_index k pre @
     (if k \<in> fst ` set succ then with_index k js else tl (with_index k js))"
proof (induction js arbitrary: succ pre)
  case Nil
  then show ?case by (simp add: with_index_def)
next
  case (Cons j js)
  from Cons.prems obtain k0 where k0: "shardIndex j = Some k0"
    by (cases "shardIndex j") auto
  let ?succ = "AList.update k0 j succ"
  let ?pre = "if k0 \<in> fst ` set succ then pre @ [j] else pre"
  from Cons.prems k0 have "resolve_shards js ?succ ?pre = Inr (succ', pre')" by simp
  note IH = Cons.IH [OF this]
  show ?case
  proof (cases "k = k0")
    case True
    then have "k \<in> fst ` set ?succ" by (simp add: dom_update)
    with IH True k0 show ?thesis
      by (auto simp: with_index_def update_conv' dom_update)
  next
    case False
    then have "(k \<in> fst ` set ?succ) = (k \<in> fst ` set succ)" by (simp add: dom_update)
    with IH False k0 show ?thesis
      by (auto simp: with_index_def update_conv' dom_update)
  qed
qed

lemma np_max_Max:
  assumes "xs \<noteq> []"
  shows "np_max xs = Max (set xs)"
proof (cases xs)
  case Nil
  with assms show ?thesis by simp
next
  case (Cons a list)
  then show ?thesis unfolding np_max_def by (simp only: list.sel Max.set_eq_fold)
qed

lemma task_row_max_preempt:
  assumes "task_row env cs = Inr row" "resolve cs = Inr (successes, preemptions)"
    "\<not> cache_hit cs" "preemptions \<noteq> []"
  shows "max_preempt_time_h row = Some (Max (workflow_time ` set preemptions) / 3600)"
  using assms by (auto simp: task_row_def Let_def np_max_Max split: if_splits)

text \<open>
  Claim C1, as amended. The shard resolution of lines 720 to 727, on the attempts of a
  scattered task, accepts for every shard index \<open>k\<close> the last attempt that carries \<open>k\<close>:
  for attempts at positions p1, p2, p3 the accepted one is that at p3. Which attempts
  count as preemptions is left open here. (\<^verbatim>\<open>get_stats\<close> reaches these lines only once
  its retry loop has ended.)
\<close>

theorem last_attempt_of_shard_is_accepted:
  assumes "resolve cs = Inr (successes, preemptions)" and "shardIndex (hd cs) \<noteq> None"
  shows "map_of successes k =
    (if with_index k cs = [] then None else Some (last (with_index k cs)))"
proof -
  from assms have r: "resolve_shards cs [] [] = Inr (successes, preemptions)"
    by (auto simp: resolve_def split: list.splits if_splits)
  from resolve_shards_index [OF r, of k] show ?thesis by (simp add: with_index_def)
qed

lemma task_row_preemptible:
  assumes "task_row env cs = Inr row" "resolve cs = Inr (successes, preemptions)"
    "\<not> cache_hit cs" "preemptions \<noteq> []"
  shows "preemptible (hd cs)"
proof -
  have "cs \<noteq> []" using assms(2) by (auto simp: resolve_def)
  then show ?thesis
    using assms by (auto simp: task_row_def Let_def hd_map split: if_splits)
qed

lemma task_row_assertion:
  assumes "resolve cs = Inr (successes, preemptions)" "\<not> cache_hit cs" "preemptions \<noteq> []"
    "\<not> preemptible (hd cs)"
  shows "task_row env cs = Inl AssertionError"
proof -
  have "cs \<noteq> []" using assms(1) by (auto simp: resolve_def)
  then show ?thesis
    using assms by (simp add: task_row_def Let_def hd_map)
qed

lemma task_rows_each:
  "task_rows env metadata_dict t index = Inr df \<Longrightarrow> i \<in> set index \<Longrightarrow>
   \<exists>md cs row. map_of metadata_dict i = Some md \<and> map_of (calls md) t = Some cs \<and>
     task_row env cs = Inr row"
proof (induction index arbitrary: df)
  case Nil
  then show ?case by simp
next
  case (Cons a index)
  from Cons.prems(1) obtain md cs row rows where
    a: "map_of metadata_dict a = Some md" "map_of (calls md) t = Some cs"
    "task_row env cs = Inr row" "task_rows env metadata_dict t index = Inr rows"
    by (auto split: option.splits sum.splits)
  show ?case
  proof (cases "i = a")
    case True
    with a show ?thesis by blast
  next
    case False
    with Cons.prems(2) have "i \<in> set index" by simp
    from Cons.IH [OF a(4) this] show ?thesis .
  qed
qed

lemma task_tables_each:
  "task_tables env metadata_dict index tasks acc = Inr out \<Longrightarrow> t \<in> set tasks \<Longrightarrow>
   \<exists>df. task_rows env metadata_dict t index = Inr df"
proof (induction tasks arbitrary: acc)
  case Nil
  then show ?case by simp
next
  case (Cons a tasks)
  from Cons.prems(1) obtain df where
    a: "task_rows env metadata_dict a index = Inr df"
    "task_tables env metadata_dict index tasks (AList.update (rsplit_last CHR ''.'' a) df acc) = Inr out"
    by (auto split: sum.splits)
  show ?case
  proof (cases "t = a")
    case True
    with a show ?thesis by blast
  next
    case False
    with Cons.prems(2) have "t \<in> set tasks" by simp
    from Cons.IH [OF a(2) this] show ?thesis .
  qed
qed

lemma stats_groups_each:
  "stats_groups env metadata_dict status_df names ws result = Inr out \<Longrightarrow> w \<in> set ws \<Longrightarrow>
   \<exists>tables. group_stats env metadata_dict (group_rows status_df names w) = Inr tables"
proof (induction ws arbitrary: result)
  case Nil
  then show ?case by simp
next
  case (Cons a ws)
  from Cons.prems(1) obtain tables where
    a: "group_stats env metadata_dict (group_rows status_df names a) = Inr tables"
    "stats_groups env metadata_dict status_df names ws (Some tables) = Inr out"
    by (auto split: sum.splits)
  show ?case
  proof (cases "w = a")
    case True
    with a show ?thesis by blast
  next
    case False
    with Cons.prems(2) have "w \<in> set ws" by simp
    from Cons.IH [OF a(2) this] show ?thesis .
  qed
qed

lemma group_stats_each:
  assumes "group_stats env metadata_dict (r0 # rest) = Inr tables"
    and "map_of metadata_dict (fst r0) = Some md0"
    and "t \<in> fst ` set (calls md0)"
    and "r \<in> set (r0 # rest)"
  shows "\<exists>md cs row. map_of metadata_dict (fst r) = Some md \<and> map_of (calls md) t = Some cs \<and>
     task_row env cs = Inr row"
proof -
  from assms(1,2) obtain task_dfs where
    "task_tables env metadata_dict (map fst (r0 # rest)) (sort (map fst (calls md0))) [] = Inr task_dfs"
    by (auto simp: group_stats_def Let_def split: sum.splits)
  moreover have "t \<in> set (sort (map fst (calls md0)))" using assms(3) by simp
  ultimately obtain df where "task_rows env metadata_dict t (map fst (r0 # rest)) = Inr df"
    using task_tables_each by blast
  moreover have "fst r \<in> set (map fst (r0 # rest))" using assms(4) by (simp add: image_iff) blast
  ultimately show ?thesis using task_rows_each by blast
qed

lemma stats_tables_each:
  assumes "stats_tables env status_df metadata_dict = Inr tables"
    and "group_rows status_df (map (\<lambda>k. workflowName (snd k)) metadata_dict) w = r0 # rest"
    and "map_of metadata_dict (fst r0) = Some md0"
    and "t \<in> fst ` set (calls md0)"
    and "r \<in> set (r0 # rest)"
  shows "\<exists>md cs row. map_of metadata_dict (fst r) = Some md \<and> map_of (calls md) t = Some cs \<and>
     task_row env cs = Inr row"
proof -
  let ?names = "map (\<lambda>k. workflowName (snd k)) metadata_dict"
  have "filter (\<lambda>p. snd p = w) (zip status_df ?names) \<noteq> []"
    using assms(2) by (auto simp: group_rows_def)
  then obtain p where p: "p \<in> set (zip status_df ?names)" "snd p = w"
    unfolding filter_empty_conv by blast
  have "(fst p, snd p) \<in> set (zip status_df ?names)" using p(1) by simp
  then have "snd p \<in> set ?names" by (rule set_zip_rightD)
  then have "w \<in> set ?names" using p(2) by simp
  then have w: "w \<in> set (sort (remdups ?names))" by simp
  from assms(1) obtain out where
    "stats_groups env metadata_dict status_df ?names (sort (remdups ?names)) None = Inr out"
    by (auto simp: stats_tables_def Let_def split: if_splits sum.splits)
  from stats_groups_each [OF this w] assms(2) obtain tb where
    "group_stats env metadata_dict (r0 # rest) = Inr tb" by auto
  from group_stats_each [OF this assms(3,4,5)] show ?thesis .
qed

text \<open>
  What lines 742 to 746 do: for a task with no call-cache hit and a preemption, a first
  attempt that is not preemptible makes the computation of the row raise
  \<^verbatim>\<open>AssertionError\<close>, so tables that lines 693 to 764 return hold no such task.
\<close>

lemma unpreemptible_first_attempt_aborts:
  "(resolve cs' = Inr (successes', preemptions') \<and> \<not> cache_hit cs' \<and> preemptions' \<noteq> [] \<and>
      \<not> preemptible (hd cs') \<longrightarrow> task_row env cs' = Inl AssertionError) \<and>
   (stats_tables env status_df metadata_dict = Inr tables \<and>
      group_rows status_df (map (\<lambda>k. workflowName (snd k)) metadata_dict) w = r0 # rest \<and>
      map_of metadata_dict (fst r0) = Some md0 \<and> t \<in> fst ` set (calls md0) \<and>
      r \<in> set (r0 # rest) \<and> map_of metadata_dict (fst r) = Some md \<and>
      map_of (calls md) t = Some cs \<and>
      resolve cs = Inr (successes, preemptions) \<and> \<not> cache_hit cs \<and> preemptions \<noteq> []
      \<longrightarrow> preemptible (hd cs))"
proof (intro conjI impI)
  assume "resolve cs' = Inr (successes', preemptions') \<and> \<not> cache_hit cs' \<and> preemptions' \<noteq> [] \<and>
      \<not> preemptible (hd cs')"
  then show "task_row env cs' = Inl AssertionError"
    using task_row_assertion by blast
next
  assume h: "stats_tables env status_df metadata_dict = Inr tables \<and>
      group_rows status_df (map (\<lambda>k. workflowName (snd k)) metadata_dict) w = r0 # rest \<and>
      map_of metadata_dict (fst r0) = Some md0 \<and> t \<in> fst ` set (calls md0) \<and>
      r \<in> set (r0 # rest) \<and> map_of metadata_dict (fst r) = Some md \<and>
      map_of (calls md) t = Some cs \<and>
      resolve cs = Inr (successes, preemptions) \<and> \<not> cache_hit cs \<and> preemptions \<noteq> []"
  then obtain md' cs' row where
    "map_of metadata_dict (fst r) = Some md'" "map_of (calls md') t = Some cs'"
    "task_row env cs' = Inr row"
    using stats_tables_each [of env status_df metadata_dict tables w r0 rest md0 t r] by blast
  with h have "task_row env cs = Inr row" by simp
  with h show "preemptible (hd cs)" using task_row_preemptible by blast
qed

lemma task_rows_row:
  "task_rows env metadata_dict t index = Inr df \<Longrightarrow> i \<in> set index \<Longrightarrow>
   \<exists>md cs row. map_of metadata_dict i = Some md \<and> map_of (calls md) t = Some cs \<and>
     task_row env cs = Inr row \<and> map_of df i = Some row"
proof (induction index arbitrary: df)
  case Nil
  then show ?case by simp
next
  case (Cons a index)
  from Cons.prems(1) obtain md cs row rows where
    a: "map_of metadata_dict a = Some md" "map_of (calls md) t = Some cs"
    "task_row env cs = Inr row" "task_rows env metadata_dict t index = Inr rows"
    "df = (a, row) # rows"
    by (auto split: option.splits sum.splits)
  show ?case
  proof (cases "i = a")
    case True
    with a show ?thesis by simp
  next
    case False
    with Cons.prems(2) have "i \<in> set index" by simp
    from Cons.IH [OF a(4) this] False a(5) show ?thesis by simp
  qed
qed

lemma task_tables_lookup:
  "task_tables env metadata_dict index tasks acc = Inr out \<Longrightarrow>
   distinct (map (rsplit_last CHR ''.'') tasks) \<Longrightarrow>
   (\<forall>t\<in>set tasks. \<exists>df. task_rows env metadata_dict t index = Inr df \<and>
                    map_of out (rsplit_last CHR ''.'' t) = Some df) \<and>
   (\<forall>n. n \<notin> rsplit_last CHR ''.'' ` set tasks \<longrightarrow> map_of out n = map_of acc n)"
proof (induction tasks arbitrary: acc)
  case Nil
  then show ?case by simp
next
  case (Cons a tasks)
  from Cons.prems(1) obtain df where
    a: "task_rows env metadata_dict a index = Inr df"
    "task_tables env metadata_dict index tasks (AList.update (rsplit_last CHR ''.'' a) df acc) = Inr out"
    by (auto split: sum.splits)
  from Cons.prems(2) have d: "distinct (map (rsplit_last CHR ''.'') tasks)"
    and n: "rsplit_last CHR ''.'' a \<notin> rsplit_last CHR ''.'' ` set tasks" by simp_all
  note IH = Cons.IH [OF a(2) d]
  from IH n have "map_of out (rsplit_last CHR ''.'' a) = Some df"
    by (simp add: update_conv')
  moreover from IH have "\<forall>t\<in>set tasks. \<exists>df. task_rows env metadata_dict t index = Inr df \<and>
                    map_of out (rsplit_last CHR ''.'' t) = Some df" by blast
  moreover from IH have "\<forall>n. n \<notin> rsplit_last CHR ''.'' ` set (a # tasks) \<longrightarrow> map_of out n = map_of acc n"
    by (simp add: update_conv')
  ultimately show ?case using a(1) by auto
qed

lemma entity_rows_rows:
  assumes "\<forall>t\<in>set tasks. \<exists>df row. map_of task_dfs (rsplit_last CHR ''.'' t) = Some df \<and>
             map_of df i = Some row \<and> row_of env md t row"
  shows "\<exists>rows. entity_rows task_dfs tasks i = Inr rows \<and> list_all2 (row_of env md) tasks rows"
  using assms
proof (induction tasks)
  case Nil
  then show ?case by simp
next
  case (Cons t tasks)
  from Cons.prems obtain df row where
    t: "map_of task_dfs (rsplit_last CHR ''.'' t) = Some df" "map_of df i = Some row" "row_of env md t row"
    by auto
  from Cons.IH Cons.prems obtain rows where
    "entity_rows task_dfs tasks i = Inr rows" "list_all2 (row_of env md) tasks rows" by auto
  with t show ?case by simp
qed

lemma workflow_rows_member:
  "workflow_rows env metadata_dict task_dfs tasks grp = Inr wrows \<Longrightarrow>
   (i, ws) \<in> set wrows \<longleftrightarrow>
   (\<exists>r\<in>set grp. workflow_row env metadata_dict task_dfs tasks r = Inr (i, ws))"
proof (induction grp arbitrary: wrows)
  case Nil
  then show ?case by simp
next
  case (Cons r grp)
  from Cons.prems obtain row rows where
    r: "workflow_row env metadata_dict task_dfs tasks r = Inr row"
    "workflow_rows env metadata_dict task_dfs tasks grp = Inr rows" "wrows = row # rows"
    by (auto split: sum.splits)
  from Cons.IH [OF r(2)] r(1,3) show ?case by auto
qed

lemma workflow_rows_each:
  "workflow_rows env metadata_dict task_dfs tasks grp = Inr wrows \<Longrightarrow> r \<in> set grp \<Longrightarrow>
   \<exists>row. workflow_row env metadata_dict task_dfs tasks r = Inr row"
proof (induction grp arbitrary: wrows)
  case Nil
  then show ?case by simp
next
  case (Cons a grp)
  from Cons.prems(1) obtain row rows where
    r: "workflow_row env metadata_dict task_dfs tasks a = Inr row"
    "workflow_rows env metadata_dict task_dfs tasks grp = Inr rows"
    by (auto split: sum.splits)
  show ?case
  proof (cases "r = a")
    case True
    with r show ?thesis by blast
  next
    case False
    with Cons.prems(2) have "r \<in> set grp" by simp
    from Cons.IH [OF r(2) this] show ?thesis .
  qed
qed

lemma sum_shares_Inr:
  "sum_shares xs = Inr tot \<Longrightarrow> \<exists>shares. xs = map Inr shares \<and> tot = sum_list shares"
proof (induction xs arbitrary: tot)
  case Nil
  then show ?case by simp
next
  case (Cons x xs)
  from Cons.prems obtain v s where x: "x = Inr v" "sum_shares xs = Inr s" "tot = v + s"
    by (auto split: sum.splits)
  from Cons.IH [OF x(2)] obtain shares where "xs = map Inr shares" "s = sum_list shares" by blast
  with x have "x # xs = map Inr (v # shares) \<and> tot = sum_list (v # shares)" by simp
  then show ?case by (rule exI [of _ "v # shares"])
qed

lemma stats_groups_last:
  "stats_groups env metadata_dict status_df names ws result = Inr out \<Longrightarrow> ws \<noteq> [] \<Longrightarrow>
   \<exists>tables. out = Some tables \<and>
     group_stats env metadata_dict (group_rows status_df names (last ws)) = Inr tables"
proof (induction ws arbitrary: result)
  case Nil
  then show ?case by simp
next
  case (Cons a ws)
  from Cons.prems(1) obtain tables where
    a: "group_stats env metadata_dict (group_rows status_df names a) = Inr tables"
    "stats_groups env metadata_dict status_df names ws (Some tables) = Inr out"
    by (auto split: sum.splits)
  show ?case
  proof (cases "ws = []")
    case True
    with a show ?thesis by auto
  next
    case False
    from Cons.IH [OF a(2) False] False show ?thesis by simp
  qed
qed

lemma stats_tables_last:
  assumes "stats_tables env status_df metadata_dict = Inr tables"
  shows "group_stats env metadata_dict
           (group_rows status_df (map (\<lambda>k. workflowName (snd k)) metadata_dict)
              (last (sort (remdups (map (\<lambda>k. workflowName (snd k)) metadata_dict))))) = Inr tables"
proof -
  let ?names = "map (\<lambda>k. workflowName (snd k)) metadata_dict"
  from assms obtain out where
    out: "stats_groups env metadata_dict status_df ?names (sort (remdups ?names)) None = Inr out"
    "out = Some tables"
    by (auto simp: stats_tables_def Let_def split: if_splits sum.splits option.splits)
  have "sort (remdups ?names) \<noteq> []"
  proof
    assume "sort (remdups ?names) = []"
    with out show False by simp
  qed
  from stats_groups_last [OF out(1) this] out(2) show ?thesis by simp
qed

lemma task_row_cached:
  assumes "task_row env cs = Inr row" and "resolve cs = Inr (successes, preemptions)"
    and "cache_hit cs"
  shows "cost_share row = 0 \<and>
    cpu_share env row = Inr (sum_list (map (\<lambda>a. workflow_time a / 3600) cs)
                             - sum_list (map quota_wait (map snd successes)))"
proof -
  from assms have e: "est_cost row = None" and m: "machine_type row = None"
    by (auto simp: task_row_def Let_def)
  have t: "total_time_h row = Some (sum_list (map (\<lambda>a. workflow_time a / 3600) cs)
                              - sum_list (map quota_wait (map snd successes)))"
    by (simp only: task_row_times(2) [OF assms(1,2)] sum_list_quota_time)
  from e m t show ?thesis by (simp add: cost_share_def cpu_share_def cores_def)
qed

lemma distinct_map_sort: "distinct (map f (sort xs)) = distinct (map f xs)"
  by (simp add: distinct_map)

lemma group_stats_aggregates:
  assumes g: "group_stats env metadata_dict (r0 # rest) = Inr (wrows, task_dfs)"
    and md0: "map_of metadata_dict (fst r0) = Some md0"
    and dist: "distinct (map (rsplit_last CHR ''.'') (map fst (calls md0)))"
    and r: "r \<in> set (r0 # rest)"
    and md: "map_of metadata_dict (fst r) = Some md"
  shows "\<exists>rows shares.
     list_all2 (row_of env md) (sort (map fst (calls md0))) rows \<and>
     map (cpu_share env) rows = map Inr shares \<and>
     (\<exists>ws. (fst r, ws) \<in> set wrows) \<and>
     (\<forall>ws. (fst r, ws) \<in> set wrows \<longrightarrow>
        w_est_cost ws = sum_list (map cost_share rows) \<and> w_cpu_hours ws = sum_list shares)"
proof -
  let ?tasks = "sort (map fst (calls md0))"
  let ?index = "map fst (r0 # rest)"
  from g md0 have tt: "task_tables env metadata_dict ?index ?tasks [] = Inr task_dfs"
    and wr: "workflow_rows env metadata_dict task_dfs ?tasks (r0 # rest) = Inr wrows"
    by (auto simp: group_stats_def Let_def split: sum.splits)
  from dist have d: "distinct (map (rsplit_last CHR ''.'') ?tasks)"
    by (simp only: distinct_map_sort)
  from task_tables_lookup [OF tt d]
  have look: "\<forall>t\<in>set ?tasks. \<exists>df. task_rows env metadata_dict t ?index = Inr df \<and>
                    map_of task_dfs (rsplit_last CHR ''.'' t) = Some df" by blast
  have i: "fst r \<in> set ?index" using r by (simp add: image_iff) blast
  have "\<forall>t\<in>set ?tasks. \<exists>df row. map_of task_dfs (rsplit_last CHR ''.'' t) = Some df \<and>
             map_of df (fst r) = Some row \<and> row_of env md t row"
  proof
    fix t assume "t \<in> set ?tasks"
    with look obtain df where df: "task_rows env metadata_dict t ?index = Inr df"
      "map_of task_dfs (rsplit_last CHR ''.'' t) = Some df" by blast
    from task_rows_row [OF df(1) i] md obtain cs row where
      "map_of (calls md) t = Some cs" "task_row env cs = Inr row" "map_of df (fst r) = Some row"
      by auto
    with df(2) show "\<exists>df row. map_of task_dfs (rsplit_last CHR ''.'' t) = Some df \<and>
             map_of df (fst r) = Some row \<and> row_of env md t row"
      by (auto simp: row_of_def)
  qed
  from entity_rows_rows [OF this] obtain rows where
    rows: "entity_rows task_dfs ?tasks (fst r) = Inr rows" "list_all2 (row_of env md) ?tasks rows"
    by blast
  from workflow_rows_each [OF wr r] obtain wrow where
    wrow: "workflow_row env metadata_dict task_dfs ?tasks r = Inr wrow" by blast
  with rows(1) md obtain cpu where cpu: "sum_shares (map (cpu_share env) rows) = Inr cpu"
    by (auto simp: workflow_row_def split: sum.splits)
  from sum_shares_Inr [OF cpu] obtain shares where
    shares: "map (cpu_share env) rows = map Inr shares" "cpu = sum_list shares" by blast
  have agg: "w_est_cost ws = sum_list (map cost_share rows) \<and> w_cpu_hours ws = sum_list shares"
    if "workflow_row env metadata_dict task_dfs ?tasks r' = Inr (fst r, ws)" for r' ws
  proof -
    from that have "fst r' = fst r"
      by (auto simp: workflow_row_def split: sum.splits option.splits)
    with that rows(1) md cpu shares(2) show ?thesis
      by (auto simp: workflow_row_def split: sum.splits option.splits)
  qed
  from wrow obtain ws0 where "wrow = (fst r, ws0)"
    by (auto simp: workflow_row_def split: sum.splits option.splits)
  with wrow r have ex: "\<exists>ws. (fst r, ws) \<in> set wrows"
    unfolding workflow_rows_member [OF wr] by blast
  have all: "\<forall>ws. (fst r, ws) \<in> set wrows \<longrightarrow>
        w_est_cost ws = sum_list (map cost_share rows) \<and> w_cpu_hours ws = sum_list shares"
    unfolding workflow_rows_member [OF wr] using agg by blast
  from rows(2) shares(1) ex all show ?thesis by blast
qed

text \<open>
  Claim C2, as amended. In the tables that lines 693 to 764 return, for a workflow whose
  task names have distinct last components, the \<^verbatim>\<open>est_cost\<close> and the \<^verbatim>\<open>cpu_hours\<close> of an
  entity are the sums, over the tasks, of the shares of the rows computed from the
  attempts of the entity, one row for each task. The row of a task with a call-cache hit
  has the share 0 in \<^verbatim>\<open>est_cost\<close>; in \<^verbatim>\<open>cpu_hours\<close> it has the \<^verbatim>\<open>total_time_h\<close> of the
  task, the hours of all its attempts minus the quota wait, counted with one core.
  (\<^verbatim>\<open>get_stats\<close> reaches these lines only once its retry loop has ended.)
\<close>

theorem cached_task_shares:
  assumes "stats_tables env status_df metadata_dict = Inr (wrows, task_dfs)"
    and "group_rows status_df (map (\<lambda>k. workflowName (snd k)) metadata_dict)
           (last (sort (remdups (map (\<lambda>k. workflowName (snd k)) metadata_dict)))) = r0 # rest"
    and "map_of metadata_dict (fst r0) = Some md0"
    and "distinct (map (rsplit_last CHR ''.'') (map fst (calls md0)))"
    and "r \<in> set (r0 # rest)"
    and "map_of metadata_dict (fst r) = Some md"
  shows "(\<exists>rows shares.
       list_all2 (row_of env md) (sort (map fst (calls md0))) rows \<and>
       map (cpu_share env) rows = map Inr shares \<and>
       (\<exists>ws. (fst r, ws) \<in> set wrows) \<and>
       (\<forall>ws. (fst r, ws) \<in> set wrows \<longrightarrow>
          w_est_cost ws = sum_list (map cost_share rows) \<and> w_cpu_hours ws = sum_list shares)) \<and>
    (\<forall>cs row successes preemptions.
       task_row env cs = Inr row \<and> resolve cs = Inr (successes, preemptions) \<and> cache_hit cs \<longrightarrow>
       cost_share row = 0 \<and>
       cpu_share env row = Inr (sum_list (map (\<lambda>a. workflow_time a / 3600) cs)
                                - sum_list (map quota_wait (map snd successes))))"
proof -
  from stats_tables_last [OF assms(1)] assms(2)
  have "group_stats env metadata_dict (r0 # rest) = Inr (wrows, task_dfs)" by simp
  from group_stats_aggregates [OF this assms(3,4,5,6)]
  have a: "\<exists>rows shares.
       list_all2 (row_of env md) (sort (map fst (calls md0))) rows \<and>
       map (cpu_share env) rows = map Inr shares \<and>
       (\<exists>ws. (fst r, ws) \<in> set wrows) \<and>
       (\<forall>ws. (fst r, ws) \<in> set wrows \<longrightarrow>
          w_est_cost ws = sum_list (map cost_share rows) \<and> w_cpu_hours ws = sum_list shares)" .
  have b: "\<forall>cs row successes preemptions.
       task_row env cs = Inr row \<and> resolve cs = Inr (successes, preemptions) \<and> cache_hit cs \<longrightarrow>
       cost_share row = 0 \<and>
       cpu_share env row = Inr (sum_list (map (\<lambda>a. workflow_time a / 3600) cs)
                                - sum_list (map quota_wait (map snd successes)))"
    using task_row_cached by blast
  from a b show ?thesis by blast
qed

lemma fetch_metadata_not_Some:
  assumes "fetch_metadata api sid wid n = Some y"
  shows False
  using assms
proof (rule fetch_metadata.raw_induct [rotated])
  fix f :: "(nat \<Rightarrow> string \<Rightarrow> string \<Rightarrow> metadata response) \<Rightarrow> string \<Rightarrow> string \<Rightarrow> nat \<Rightarrow> (metadata \<times> nat) option"
  fix api sid wid n y
  assume IH: "\<And>api sid wid n y. f api sid wid n = Some y \<Longrightarrow> False"
  assume "(case (case get_workflow_metadata (api n) sid wid of
                   Inl e \<Rightarrow> Inl e
                 | Inr metadata \<Rightarrow> dot_json (Dict metadata)) of
             Inl e \<Rightarrow> f api sid wid (Suc n)
           | Inr d \<Rightarrow> Some (d, Suc n)) = Some y"
  then have "f api sid wid (Suc n) = Some y"
    by (auto simp: dot_json_def split: sum.splits)
  then show False by (rule IH)
qed

lemma fetch_metadata_None: "fetch_metadata api sid wid n = None"
  using fetch_metadata_not_Some [of api sid wid n] by (cases "fetch_metadata api sid wid n") auto

lemma fetch_all_None: "rows \<noteq> [] \<Longrightarrow> fetch_all api rows n metadata_dict = None"
  by (cases rows) (simp_all add: fetch_metadata_None)

lemma get_stats_None:
  "filter (\<lambda>r. es_status (snd r) = ''Succeeded'') status_df \<noteq> [] \<Longrightarrow> get_stats env api status_df = None"
  by (simp add: get_stats_def fetch_all_None)

lemma get_stats_no_rows:
  "filter (\<lambda>r. es_status (snd r) = ''Succeeded'') status_df = [] \<Longrightarrow>
   get_stats env api status_df = Some (Inl UnboundLocalError)"
  by (simp add: get_stats_def stats_tables_def)

text \<open>\<^verbatim>\<open>get_stats\<close> never returns tables and never raises \<^verbatim>\<open>AssertionError\<close>.\<close>

lemma get_stats_outcomes:
  "get_stats env api status_df = None \<or> get_stats env api status_df = Some (Inl UnboundLocalError)"
  using get_stats_None [of status_df env api] get_stats_no_rows [of status_df env api] by blast

section \<open>Properties of the patching of attributes\<close>

lemma patch_tasks_dry_run:
  "rem (snd (patch_tasks True output_map incomplete_df sample_id tasks s)) = rem s"
proof (induction tasks arbitrary: s)
  case Nil
  then show ?case by simp
next
  case (Cons task tasks)
  show ?case
    by (simp add: Cons.IH split: option.splits sum.splits)
qed

lemma try_sample_dry_run:
  "rem (snd (try_sample True output_map incomplete_df sample_status_df sample_id s)) = rem s"
  by (simp add: try_sample_def Let_def patch_tasks_dry_run split: sum.splits option.splits)

lemma patch_samples_dry_run:
  "rem (snd (patch_samples True output_map incomplete_df sample_status_df index s)) = rem s"
proof (induction index arbitrary: s)
  case Nil
  then show ?case by simp
next
  case (Cons sample_id index)
  obtain r s' where t: "try_sample True output_map incomplete_df sample_status_df sample_id s = (r, s')"
    by (cases "try_sample True output_map incomplete_df sample_status_df sample_id s")
  have "rem s' = rem s" using try_sample_dry_run [of output_map incomplete_df sample_status_df sample_id s] t
    by simp
  with t Cons.IH [of s'] show ?case
    by (simp split: option.splits)
qed

lemma patch_sample_sets_dry_run:
  "snd (patch_sample_sets True output_map sample_set_status_df index st) = st"
  by (induction index) (simp_all split: sum.splits option.splits)

lemma patch_attributes_dry_run:
  "snd (patch_attributes cnamespace configuration True entity st) = st"
proof -
  have a: "snd (case patch_samples True output_map incomplete_df sample_status_df index
                  \<lparr>task_counts = [], metadata_var = None, rem = st\<rparr> of
                (Some e, s) \<Rightarrow> (Inl e, rem s)
              | (None, s) \<Rightarrow> (Inr (task_counts s), rem s)) = st"
    for output_map incomplete_df sample_status_df index
  proof -
    obtain r s where p: "patch_samples True output_map incomplete_df sample_status_df index
        \<lparr>task_counts = [], metadata_var = None, rem = st\<rparr> = (r, s)"
      by (cases "patch_samples True output_map incomplete_df sample_status_df index
        \<lparr>task_counts = [], metadata_var = None, rem = st\<rparr>")
    with patch_samples_dry_run [of output_map incomplete_df sample_status_df index
        "\<lparr>task_counts = [], metadata_var = None, rem = st\<rparr>"]
    have "rem s = st" by simp
    with p show ?thesis by (cases r) simp_all
  qed
  have b: "snd (case patch_sample_sets True output_map sample_set_status_df index st of
                (Some e, st') \<Rightarrow> (Inl e, st')
              | (None, st') \<Rightarrow> (Inr ([] :: (string \<times> nat) list), st')) = st"
    for output_map sample_set_status_df index
  proof -
    obtain r st' where p: "patch_sample_sets True output_map sample_set_status_df index st = (r, st')"
      by (cases "patch_sample_sets True output_map sample_set_status_df index st")
    with patch_sample_sets_dry_run [of output_map sample_set_status_df index st]
    have "st' = st" by simp
    with p show ?thesis by (cases r) simp_all
  qed
  show ?thesis
    unfolding patch_attributes_def Let_def
    by (simp add: a b split: sum.splits)
qed

text \<open>
  Claim C6. With \<^verbatim>\<open>dry_run=True\<close>, \<^verbatim>\<open>patch_attributes\<close> leaves the remote as it found
  it, for every remote and every argument: no write request is added. Hence a second dry
  run, on the remote that the first one left, has the same outcome as the first: the
  same counters, or the same exception.
\<close>

theorem dry_run_writes_nothing:
  "snd (patch_attributes cnamespace configuration True entity st) = st \<and>
   batch_updates (snd (patch_attributes cnamespace configuration True entity st)) = batch_updates st \<and>
   patch_attributes cnamespace configuration True entity
     (snd (patch_attributes cnamespace configuration True entity st)) =
   patch_attributes cnamespace configuration True entity st"
  by (simp add: patch_attributes_dry_run)

lemma handler_raises: "handler m \<noteq> None"
  by (simp add: handler_def dot_json_def split: option.splits)

lemma patch_samples_abort:
  assumes "try_sample dry_run output_map incomplete_df sample_status_df sample_id s = (Some e, s')"
  shows "\<exists>e'. patch_samples dry_run output_map incomplete_df sample_status_df (sample_id # index) s
           = (Some e', s')"
  using assms handler_raises [of "metadata_var s'"] by (auto split: option.splits)

section \<open>The statistics at the example inputs\<close>

lemmas stats_ex_defs = example_env_def quota_attempt_def shard1_def shard2_def shard3_def
  cached_attempt_def succeeded_S1_def sharded_metadata_def cached_metadata_def

lemma resolve_quota: "resolve [quota_attempt] = Inr ([(0, quota_attempt)], [])"
  by (simp add: resolve_def quota_attempt_def)

lemma resolve_shards_ex: "resolve [shard1, shard2, shard3] = Inr ([(0, shard3)], [shard2, shard3])"
  by (simp add: resolve_def shard1_def shard2_def shard3_def)

lemma quota_task_row: "task_row example_env [quota_attempt] = Inr quota_row"
  by (simp add: task_row_def resolve_quota)
     (simp add: quota_row_def quota_time_def cache_hit_def workflow_time_def rsplit_last_def
        quota_attempt_def example_env_def)

lemma sharded_task_row: "task_row example_env [shard1, shard2, shard3] = Inr sharded_row"
  by (simp add: task_row_def resolve_shards_ex)
     (simp add: sharded_row_def quota_time_def cache_hit_def workflow_time_def rsplit_last_def
        np_max_def shard1_def shard2_def shard3_def example_env_def)

lemma resolve_cached: "resolve [cached_attempt] = Inr ([(0, cached_attempt)], [])"
  by (simp add: resolve_def cached_attempt_def)

lemma cached_task_row: "task_row example_env [cached_attempt] = Inr cached_row"
  by (simp add: task_row_def resolve_cached)
     (simp add: cached_row_def quota_time_def cache_hit_def workflow_time_def
        cached_attempt_def)

lemma sharded_tables:
  "stats_tables example_env [succeeded_S1] [(''S1'', sharded_metadata)] =
     Inr ([(''S1'', \<lparr>w_status = snd succeeded_S1, w_est_cost = 1 / 4, w_time_h = 7 / 2,
                   w_cpu_hours = 28, w_start_time = ''09:30''\<rparr>)],
          [(''align'', [(''S1'', sharded_row)])])"
proof -
  have c: "calls sharded_metadata = [(''wgs.align'', [shard1, shard2, shard3])]"
    by (simp add: sharded_metadata_def)
  have n: "rsplit_last CHR ''.'' ''wgs.align'' = ''align''" by (simp add: rsplit_last_def)
  have f: "fst succeeded_S1 = ''S1''" by (simp add: succeeded_S1_def)
  have cpu: "cpu_share example_env sharded_row = Inr 28"
    by (simp add: cpu_share_def cores_def sharded_row_def rsplit_last_def example_env_def)
  have cost: "cost_share sharded_row = 1 / 4" by (simp add: cost_share_def sharded_row_def)
  have w: "workflow_time sharded_metadata / 3600 = 7 / 2" "workflowName sharded_metadata = ''wgs''"
    "local_hm example_env (start sharded_metadata) = ''09:30''"
    by (simp_all add: workflow_time_def sharded_metadata_def example_env_def)
  show ?thesis
    by (simp add: stats_tables_def group_rows_def group_stats_def workflow_row_def
        c n f cpu cost w sharded_task_row)
qed

lemma cached_tables:
  "stats_tables example_env [succeeded_S1] [(''S1'', cached_metadata)] =
     Inr ([(''S1'', \<lparr>w_status = snd succeeded_S1, w_est_cost = 0, w_time_h = 1,
                   w_cpu_hours = 1, w_start_time = ''09:30''\<rparr>)],
          [(''align'', [(''S1'', cached_row)])])"
proof -
  have c: "calls cached_metadata = [(''wgs.align'', [cached_attempt])]"
    by (simp add: cached_metadata_def)
  have n: "rsplit_last CHR ''.'' ''wgs.align'' = ''align''" by (simp add: rsplit_last_def)
  have f: "fst succeeded_S1 = ''S1''" by (simp add: succeeded_S1_def)
  have cpu: "cpu_share example_env cached_row = Inr 1"
    by (simp add: cpu_share_def cores_def cached_row_def)
  have cost: "cost_share cached_row = 0" by (simp add: cost_share_def cached_row_def)
  have w: "workflow_time cached_metadata / 3600 = 1" "workflowName cached_metadata = ''wgs''"
    "local_hm example_env (start cached_metadata) = ''09:30''"
    by (simp_all add: workflow_time_def cached_metadata_def example_env_def)
  show ?thesis
    by (simp add: stats_tables_def group_rows_def group_stats_def workflow_row_def
        c n f cpu cost w cached_task_row)
qed

text \<open>
  Claim C7 fails on the code here. The only task of the workflow has one attempt of two
  hours that waited half an hour for quota, for which lines 732 to 737 would give a
  \<^verbatim>\<open>time_h\<close> of 1.5 hours. The remote answers the request for the metadata with 200, and
  \<^verbatim>\<open>get_stats\<close> never returns: its retry loop does not end, and no \<^verbatim>\<open>time_h\<close> is ever
  computed.
\<close>

theorem accepted_attempt_never_contributes:
  "get_workflow_metadata (serve quota_metadata 0) ''sub-2'' ''wf-2'' = Inr quota_metadata \<and>
   map_of (calls quota_metadata) ''wgs.align'' = Some [quota_attempt] \<and>
   workflow_time quota_attempt / 3600 = 2 \<and>
   quota_wait quota_attempt = 1 / 2 \<and>
   task_row example_env [quota_attempt] = Inr quota_row \<and>
   time_h quota_row = Some (3 / 2) \<and>
   get_stats example_env (serve quota_metadata) [succeeded_S1] = None"
proof -
  have "filter (\<lambda>r. es_status (snd r) = ''Succeeded'') [succeeded_S1] \<noteq> []"
    by (simp add: succeeded_S1_def)
  then have "get_stats example_env (serve quota_metadata) [succeeded_S1] = None"
    by (rule get_stats_None)
  moreover have "get_workflow_metadata (serve quota_metadata 0) ''sub-2'' ''wf-2'' = Inr quota_metadata"
    by (simp add: get_workflow_metadata_def serve_def dot_json_def json_def)
  moreover have "map_of (calls quota_metadata) ''wgs.align'' = Some [quota_attempt]"
    by (simp add: quota_metadata_def)
  moreover have "workflow_time quota_attempt / 3600 = 2"
    by (simp add: workflow_time_def quota_attempt_def)
  moreover have "quota_wait quota_attempt = 1 / 2"
    by (simp add: quota_wait_def quota_attempt_def)
  moreover have "time_h quota_row = Some (3 / 2)" by (simp add: quota_row_def)
  ultimately show ?thesis using quota_task_row by simp
qed

text \<open>Three attempts of the shard 0: the third is the accepted one.\<close>

theorem last_attempt_of_shard_is_accepted_witness:
  "with_index 0 [shard1, shard2, shard3] = [shard1, shard2, shard3] \<and>
   shardIndex (hd [shard1, shard2, shard3]) = Some 0 \<and>
   map_sum id fst (resolve [shard1, shard2, shard3]) = Inr [(0, shard3)] \<and>
   map_of [(0, shard3)] 0 = Some (last [shard1, shard2, shard3])"
proof -
  have h: "shardIndex (hd [shard1, shard2, shard3]) \<noteq> None" by (simp add: shard1_def)
  have i: "with_index 0 [shard1, shard2, shard3] = [shard1, shard2, shard3]"
    by (simp add: with_index_def shard1_def shard2_def shard3_def)
  from last_attempt_of_shard_is_accepted [OF resolve_shards_ex h, of 0] i
  have "map_of [(0, shard3)] 0 = Some (last [shard1, shard2, shard3])" by simp
  with i resolve_shards_ex show ?thesis by (simp add: shard1_def)
qed

text \<open>
  Claim C1 as stated fails here, on lines 720 to 756: the accepted attempt of the shard 0
  is the third, not the first, and \<^verbatim>\<open>job_ids\<close> and \<^verbatim>\<open>time_h\<close> are those of the third.
\<close>

theorem first_attempt_accepted_counterexample:
  "with_index 0 [shard1, shard2, shard3] = [shard1, shard2, shard3] \<and>
   map_sum id fst (resolve [shard1, shard2, shard3]) = Inr [(0, shard3)] \<and>
   shard3 \<noteq> shard1 \<and>
   map_sum id job_ids (task_row example_env [shard1, shard2, shard3]) = Inr (Some (jobId shard3)) \<and>
   map_sum id time_h (task_row example_env [shard1, shard2, shard3])
     = Inr (Some (workflow_time shard3 / 3600)) \<and>
   workflow_time shard1 \<noteq> workflow_time shard3"
  by (simp add: resolve_shards_ex sharded_task_row)
     (simp add: with_index_def sharded_row_def workflow_time_def shard1_def shard2_def shard3_def)

text \<open>
  Claim C10 fails on the code here. The retried task of the workflow began with an
  attempt that is not preemptible, for which line 745 would raise \<^verbatim>\<open>AssertionError\<close>.
  The remote answers the request for the metadata with 200, and \<^verbatim>\<open>get_stats\<close> neither
  raises nor returns: its retry loop does not end.
\<close>

theorem assertion_is_never_reached:
  "get_workflow_metadata (serve unpreemptible_metadata 0) ''sub-2'' ''wf-2''
     = Inr unpreemptible_metadata \<and>
   map_of (calls unpreemptible_metadata) ''wgs.align'' = Some [shard3, shard2] \<and>
   resolve [shard3, shard2] = Inr ([(0, shard2)], [shard2]) \<and>
   \<not> cache_hit [shard3, shard2] \<and>
   \<not> preemptible (hd [shard3, shard2]) \<and>
   task_row example_env [shard3, shard2] = Inl AssertionError \<and>
   get_stats example_env (serve unpreemptible_metadata) [succeeded_S1] = None"
proof -
  have "filter (\<lambda>r. es_status (snd r) = ''Succeeded'') [succeeded_S1] \<noteq> []"
    by (simp add: succeeded_S1_def)
  then have "get_stats example_env (serve unpreemptible_metadata) [succeeded_S1] = None"
    by (rule get_stats_None)
  moreover have "get_workflow_metadata (serve unpreemptible_metadata 0) ''sub-2'' ''wf-2''
     = Inr unpreemptible_metadata"
    by (simp add: get_workflow_metadata_def serve_def dot_json_def json_def)
  moreover have "map_of (calls unpreemptible_metadata) ''wgs.align'' = Some [shard3, shard2]"
    by (simp add: unpreemptible_metadata_def)
  moreover have r: "resolve [shard3, shard2] = Inr ([(0, shard2)], [shard2])"
    by (simp add: resolve_def shard2_def shard3_def)
  moreover have c: "\<not> cache_hit [shard3, shard2]"
    by (simp add: cache_hit_def shard2_def shard3_def)
  moreover have p: "\<not> preemptible (hd [shard3, shard2])" by (simp add: shard3_def)
  moreover have "task_row example_env [shard3, shard2] = Inl AssertionError"
    using task_row_assertion [OF r c _ p] by simp
  ultimately show ?thesis by simp
qed

lemma mixed_tables:
  "stats_tables example_env [succeeded_S1] [(''S1'', mixed_metadata)] =
     Inr ([(''S1'', mixed_stats)],
          [(''align'', [(''S1'', cached_row)]), (''call'', [(''S1'', quota_row)])])"
proof -
  have c: "calls mixed_metadata = [(''wgs.call'', [quota_attempt]), (''wgs.align'', [cached_attempt])]"
    by (simp add: mixed_metadata_def)
  have n: "rsplit_last CHR ''.'' ''wgs.align'' = ''align''" "rsplit_last CHR ''.'' ''wgs.call'' = ''call''"
    by (simp_all add: rsplit_last_def)
  have f: "fst succeeded_S1 = ''S1''" by (simp add: succeeded_S1_def)
  have cpu: "cpu_share example_env cached_row = Inr 1" "cpu_share example_env quota_row = Inr 12"
    by (simp_all add: cpu_share_def cores_def cached_row_def quota_row_def rsplit_last_def
        example_env_def)
  have cost: "cost_share cached_row = 0" "cost_share quota_row = 2 / 5"
    by (simp_all add: cost_share_def cached_row_def quota_row_def)
  have w: "workflow_time mixed_metadata / 3600 = 2" "workflowName mixed_metadata = ''wgs''"
    "local_hm example_env (start mixed_metadata) = ''09:30''"
    by (simp_all add: workflow_time_def mixed_metadata_def example_env_def)
  show ?thesis
    by (simp add: stats_tables_def group_rows_def group_stats_def workflow_row_def
        c n f cpu cost w cached_task_row quota_task_row mixed_stats_def
        less_eq_char_def less_char_def)
qed

text \<open>
  A workflow with a cached task of one hour and a computed task of 1.5 hours on 8 cores:
  the cached one adds no cost and one CPU hour.
\<close>

theorem cached_task_shares_witness:
  "stats_tables example_env [succeeded_S1] [(''S1'', mixed_metadata)] =
     Inr ([(''S1'', mixed_stats)],
          [(''align'', [(''S1'', cached_row)]), (''call'', [(''S1'', quota_row)])]) \<and>
   cache_hit [cached_attempt] \<and>
   row_of example_env mixed_metadata ''wgs.align'' cached_row \<and>
   cost_share cached_row = 0 \<and>
   cpu_share example_env cached_row = Inr 1 \<and>
   (\<exists>row. row_of example_env mixed_metadata ''wgs.call'' row \<and>
      w_est_cost mixed_stats = 0 + cost_share row \<and>
      map (cpu_share example_env) [cached_row, row] = map Inr [1, w_cpu_hours mixed_stats - 1])"
proof -
  let ?names = "map (\<lambda>k. workflowName (snd k)) [(''S1'', mixed_metadata)]"
  have g: "group_rows [succeeded_S1] ?names (last (sort (remdups ?names))) = succeeded_S1 # []"
    by (simp add: group_rows_def mixed_metadata_def)
  have m: "map_of [(''S1'', mixed_metadata)] (fst succeeded_S1) = Some mixed_metadata"
    by (simp add: succeeded_S1_def)
  have d: "distinct (map (rsplit_last CHR ''.'') (map fst (calls mixed_metadata)))"
    by (simp add: mixed_metadata_def rsplit_last_def)
  have r: "succeeded_S1 \<in> set (succeeded_S1 # [])" by simp
  have h: "cache_hit [cached_attempt]" by (simp add: cache_hit_def cached_attempt_def)
  have w: "workflow_time cached_attempt / 3600 = 1"
    by (simp add: workflow_time_def cached_attempt_def)
  have q: "quota_wait cached_attempt = 0" by (simp add: quota_wait_def cached_attempt_def)
  have s: "sort (map fst (calls mixed_metadata)) = [''wgs.align'', ''wgs.call'']"
    by (simp add: mixed_metadata_def less_eq_char_def less_char_def)
  have a: "row_of example_env mixed_metadata ''wgs.align'' row \<longleftrightarrow> row = cached_row" for row
    by (auto simp: row_of_def mixed_metadata_def cached_task_row)
  have f: "fst succeeded_S1 = ''S1''" by (simp add: succeeded_S1_def)
  note inst = cached_task_shares [OF mixed_tables g m d r m]
  from inst have cached: "\<forall>cs row successes preemptions.
       task_row example_env cs = Inr row \<and> resolve cs = Inr (successes, preemptions) \<and>
       cache_hit cs \<longrightarrow>
       cost_share row = 0 \<and>
       cpu_share example_env row = Inr (sum_list (map (\<lambda>a. workflow_time a / 3600) cs)
                                - sum_list (map quota_wait (map snd successes)))" by blast
  from cached [rule_format, of "[cached_attempt]" cached_row "[(0, cached_attempt)]" "[]"]
    cached_task_row resolve_cached h
  have c: "cost_share cached_row = 0" "cpu_share example_env cached_row = Inr 1"
    by (simp_all add: w q)
  from inst obtain rows shares where rs:
    "list_all2 (row_of example_env mixed_metadata) (sort (map fst (calls mixed_metadata))) rows"
    "map (cpu_share example_env) rows = map Inr shares"
    "\<forall>ws. (fst succeeded_S1, ws) \<in> set [(''S1'', mixed_stats)] \<longrightarrow>
        w_est_cost ws = sum_list (map cost_share rows) \<and> w_cpu_hours ws = sum_list shares"
    by blast
  from rs(1) obtain row where row: "rows = [cached_row, row]"
    "row_of example_env mixed_metadata ''wgs.call'' row"
    unfolding s by (auto simp: list_all2_Cons1 a)
  from rs(3) f have e: "w_est_cost mixed_stats = sum_list (map cost_share rows)"
    "w_cpu_hours mixed_stats = sum_list shares" by simp_all
  from rs(2) row(1) c(2) obtain x where x: "shares = [1, x]"
    by (auto simp: map_eq_Cons_conv)
  with e(2) have "x = w_cpu_hours mixed_stats - 1" by simp
  with x rs(2) row(1) have "map (cpu_share example_env) [cached_row, row]
      = map Inr [1, w_cpu_hours mixed_stats - 1]" by simp
  moreover from e(1) row(1) c(1) have "w_est_cost mixed_stats = 0 + cost_share row" by simp
  ultimately show ?thesis using mixed_tables h a c row(2) by blast
qed

text \<open>
  Claim C2 as stated fails here, on lines 693 to 764: the only task of the workflow hit
  the call cache, and the \<^verbatim>\<open>cpu_hours\<close> of the entity is 1, not 0.
\<close>

theorem cached_task_cpu_hours_counterexample:
  "cache_hit [cached_attempt] \<and>
   calls cached_metadata = [(''wgs.align'', [cached_attempt])] \<and>
   stats_tables example_env [succeeded_S1] [(''S1'', cached_metadata)] =
     Inr ([(''S1'', \<lparr>w_status = snd succeeded_S1, w_est_cost = 0, w_time_h = 1,
                   w_cpu_hours = 1, w_start_time = ''09:30''\<rparr>)],
          [(''align'', [(''S1'', cached_row)])])"
  by (simp add: cached_tables) (simp add: cache_hit_def cached_attempt_def cached_metadata_def)

text \<open>
  Claim C9 fails on the code here: the remote answers the first request with 200 and a
  body, \<^verbatim>\<open>get_workflow_metadata\<close> returns the decoded dictionary, \<^verbatim>\<open>.json()\<close> on it
  raises, the handler swallows that, and the loop goes on: \<^verbatim>\<open>get_stats\<close> never returns.
\<close>

theorem successful_fetch_is_retried_forever:
  "get_workflow_metadata (always_ok 0) ''sub-2'' ''wf-2'' = Inr sharded_metadata \<and>
   dot_json (Dict sharded_metadata) = Inl AttributeError \<and>
   fetch_metadata always_ok ''sub-2'' ''wf-2'' 0 = None \<and>
   get_stats example_env always_ok [succeeded_S1] = None"
proof -
  have "filter (\<lambda>r. es_status (snd r) = ''Succeeded'') [succeeded_S1] \<noteq> []"
    by (simp add: succeeded_S1_def)
  then have "get_stats example_env always_ok [succeeded_S1] = None" by (rule get_stats_None)
  moreover have "get_workflow_metadata (always_ok 0) ''sub-2'' ''wf-2'' = Inr sharded_metadata"
    by (simp add: get_workflow_metadata_def always_ok_def dot_json_def json_def)
  ultimately show ?thesis by (simp add: dot_json_def fetch_metadata_None)
qed

section \<open>Patching at the example inputs\<close>

lemmas patch_ex_defs = sample_S2_def sub9_def wf9_def variant_call_def failed_metadata_def
  participant_P1_def sample_S1_def sub1_def wf1_def

lemma patch_outputs:
  "expected_outputs patch_remote ''ns'' ''wgs_pipeline'' = Inr [(''output_vcf'', ''vcf_path'')]"
  by (simp add: expected_outputs_def patch_remote_def json_def dict_of_def rsplit_last_def
      split_last_def)

lemma healthy_outputs:
  "expected_outputs healthy_remote ''ns'' ''wgs_pipeline'' = Inr [(''output_vcf'', ''vcf_path'')]"
  by (simp add: expected_outputs_def healthy_remote_def patch_remote_def json_def dict_of_def
      rsplit_last_def split_last_def)

lemma patch_incomplete:
  "\<exists>df. get_samples patch_remote = Inr df \<and>
     incomplete_samples [''vcf_path''] df =
       Inr \<lparr>df_index = [''S1'', ''S2''], df_columns = [''vcf_path''], df_cell = (\<lambda>i c. None)\<rparr>"
  by (simp add: get_samples_def get_entities_def get_entities_query_def entity_frame_def
      entity_name_of_def incomplete_samples_def patch_remote_def json_def participant_P1_def)

lemma healthy_incomplete:
  "\<exists>df. get_samples healthy_remote = Inr df \<and>
     incomplete_samples [''vcf_path''] df =
       Inr \<lparr>df_index = [''S1'', ''S2''], df_columns = [''vcf_path''], df_cell = (\<lambda>i c. None)\<rparr>"
  by (simp add: get_samples_def get_entities_def get_entities_query_def entity_frame_def
      entity_name_of_def incomplete_samples_def healthy_remote_def patch_remote_def json_def
      participant_P1_def)

lemma patch_sample_status:
  "get_sample_status patch_remote (Some ''wgs_pipeline'') = Inr patch_status"
  by (simp add: get_sample_status_def get_entity_status_def list_submissions_def
      get_submission_def json_def record_workflow_def new_status_def patch_status_def
      patch_remote_def patch_ex_defs)

lemma healthy_sample_status:
  "get_sample_status healthy_remote (Some ''wgs_pipeline'') = Inr patch_status"
  by (simp add: get_sample_status_def get_entity_status_def list_submissions_def
      get_submission_def json_def record_workflow_def new_status_def patch_status_def
      healthy_remote_def patch_remote_def patch_ex_defs)

lemma failed_fetch: "get_workflow_metadata (api_get_workflow_metadata patch_remote) ''sub-1'' ''wf-1''
    = Inl AssertionError"
  by (simp add: get_workflow_metadata_def patch_remote_def)

lemma good_fetch: "get_workflow_metadata (api_get_workflow_metadata patch_remote) ''sub-9'' ''wf-9''
    = Inr failed_metadata"
  by (simp add: get_workflow_metadata_def patch_remote_def dot_json_def json_def)

lemma healthy_fetch: "get_workflow_metadata (api_get_workflow_metadata healthy_remote) s w
    = Inr failed_metadata"
  by (simp add: get_workflow_metadata_def healthy_remote_def dot_json_def json_def)

lemma candidate_tasks:
  "patch_tasks True [(''output_vcf'', ''vcf_path'')] patch_frame i (calls failed_metadata) s =
     (None, s\<lparr>task_counts := increment ''VariantCall'' (task_counts s)\<rparr>)"
  by (simp add: failed_metadata_def variant_call_def patch_frame_def rsplit_last_def)

lemma no_workflow_outputs: "workflow_outputs failed_metadata = Some []"
  by (simp add: failed_metadata_def)

lemma try_S1:
  "try_sample True [(''output_vcf'', ''vcf_path'')] patch_frame patch_status ''S1''
     \<lparr>task_counts = [], metadata_var = None, rem = patch_remote\<rparr> =
   (Some AssertionError, \<lparr>task_counts = [], metadata_var = None, rem = patch_remote\<rparr>)"
  by (simp add: try_sample_def status_row_def patch_status_def failed_fetch)

lemma try_S2:
  "try_sample True [(''output_vcf'', ''vcf_path'')] patch_frame patch_status ''S2''
     \<lparr>task_counts = [], metadata_var = None, rem = patch_remote\<rparr> =
   (None, \<lparr>task_counts = [(''VariantCall'', 1)], metadata_var = Some failed_metadata,
            rem = patch_remote\<rparr>)"
  by (simp add: try_sample_def status_row_def patch_status_def good_fetch no_workflow_outputs
      candidate_tasks increment_def)

lemma loop_S1_S2:
  "patch_samples True [(''output_vcf'', ''vcf_path'')] patch_frame patch_status [''S1'', ''S2'']
     \<lparr>task_counts = [], metadata_var = None, rem = patch_remote\<rparr> =
   (Some UnboundLocalError, \<lparr>task_counts = [], metadata_var = None, rem = patch_remote\<rparr>)"
  by (simp add: try_S1 handler_def)

lemma loop_S2:
  "patch_samples True [(''output_vcf'', ''vcf_path'')] patch_frame patch_status [''S2'']
     \<lparr>task_counts = [], metadata_var = None, rem = patch_remote\<rparr> =
   (None, \<lparr>task_counts = [(''VariantCall'', 1)], metadata_var = Some failed_metadata,
            rem = patch_remote\<rparr>)"
  by (simp add: try_S2)

lemma patch_remote_result:
  "patch_attributes ''ns'' ''wgs_pipeline'' True ''sample'' patch_remote =
     (Inl UnboundLocalError, patch_remote)"
proof -
  from patch_incomplete obtain df where df: "get_samples patch_remote = Inr df"
    "incomplete_samples [''vcf_path''] df = Inr patch_frame"
    unfolding patch_frame_def by blast
  have i: "df_index patch_frame = [''S1'', ''S2'']" by (simp add: patch_frame_def)
  have k: "''S1'' \<in> fst ` set patch_status" "''S2'' \<in> fst ` set patch_status"
    by (simp_all add: patch_status_def)
  show ?thesis
    by (simp add: patch_attributes_def patch_outputs df patch_sample_status i k loop_S1_S2
        del: patch_samples.simps)
qed

text \<open>
  Claim C4 fails on the code here. The metadata request for \<open>S1\<close> is answered with 500.
  Alone, \<open>S2\<close> is processed and counted; after \<open>S1\<close> it is never reached: the handler
  of the failure of \<open>S1\<close> evaluates \<^verbatim>\<open>metadata.json()\<close> while \<^verbatim>\<open>metadata\<close> is unbound,
  and the exception leaves the loop and \<^verbatim>\<open>patch_attributes\<close>.
\<close>

theorem one_failure_aborts_the_batch:
  "get_workflow_metadata (api_get_workflow_metadata patch_remote) ''sub-1'' ''wf-1''
     = Inl AssertionError \<and>
   patch_samples True [(''output_vcf'', ''vcf_path'')] patch_frame patch_status [''S2'']
     \<lparr>task_counts = [], metadata_var = None, rem = patch_remote\<rparr> =
   (None, \<lparr>task_counts = [(''VariantCall'', 1)], metadata_var = Some failed_metadata,
            rem = patch_remote\<rparr>) \<and>
   patch_samples True [(''output_vcf'', ''vcf_path'')] patch_frame patch_status [''S1'', ''S2'']
     \<lparr>task_counts = [], metadata_var = None, rem = patch_remote\<rparr> =
   (Some UnboundLocalError, \<lparr>task_counts = [], metadata_var = None, rem = patch_remote\<rparr>) \<and>
   patch_attributes ''ns'' ''wgs_pipeline'' True ''sample'' patch_remote =
     (Inl UnboundLocalError, patch_remote)"
  by (simp add: failed_fetch loop_S2 loop_S1_S2 patch_remote_result del: patch_samples.simps)

lemma healthy_loop:
  "patch_samples True [(''output_vcf'', ''vcf_path'')] patch_frame patch_status [''S1'', ''S2'']
     \<lparr>task_counts = [], metadata_var = None, rem = healthy_remote\<rparr> =
   (None, \<lparr>task_counts = [(''VariantCall'', 2)], metadata_var = Some failed_metadata,
            rem = healthy_remote\<rparr>)"
  by (simp add: try_sample_def status_row_def patch_status_def healthy_fetch no_workflow_outputs
      candidate_tasks increment_def)

text \<open>
  A dry run on the workspace whose metadata requests all succeed: two candidates for
  \<open>VariantCall\<close>, the remote unchanged, and the same report from a second dry run.
\<close>

theorem dry_run_writes_nothing_witness:
  "patch_attributes ''ns'' ''wgs_pipeline'' True ''sample'' healthy_remote =
     (Inr [(''VariantCall'', 2)], healthy_remote) \<and>
   batch_updates healthy_remote = [] \<and>
   patch_attributes ''ns'' ''wgs_pipeline'' True ''sample''
     (snd (patch_attributes ''ns'' ''wgs_pipeline'' True ''sample'' healthy_remote)) =
     (Inr [(''VariantCall'', 2)], healthy_remote)"
proof -
  from healthy_incomplete obtain df where df: "get_samples healthy_remote = Inr df"
    "incomplete_samples [''vcf_path''] df = Inr patch_frame"
    unfolding patch_frame_def by blast
  have i: "df_index patch_frame = [''S1'', ''S2'']" by (simp add: patch_frame_def)
  have k: "''S1'' \<in> fst ` set patch_status" "''S2'' \<in> fst ` set patch_status"
    by (simp_all add: patch_status_def)
  have "fst (patch_attributes ''ns'' ''wgs_pipeline'' True ''sample'' healthy_remote) =
      Inr [(''VariantCall'', 2)]"
    by (simp add: patch_attributes_def healthy_outputs df healthy_sample_status i k healthy_loop
        del: patch_samples.simps)
  moreover have "batch_updates healthy_remote = []"
    by (simp add: healthy_remote_def patch_remote_def)
  ultimately show ?thesis
    using dry_run_writes_nothing [of "''ns''" "''wgs_pipeline''" "''sample''" healthy_remote]
    by (metis prod.collapse)
qed

end
